theory Spec2Isabelle
  imports Complex_Main
begin

section \<open>JavaScript values\<close>

text \<open>
  The decoded response body \<open>data\<close> is an arbitrary JSON value, and the service reads it
  with property access, optional chaining, \<open>||\<close>, \<open>!\<close> and arithmetic. The values are
  modelled dynamically, as the runtime has them.

  A number is \<open>NaN\<close> or a finite value, written as the rational it denotes. The model
  computes with exact rationals: the rounding of a double operation, overflow to an
  infinity and the sign of zero are not modelled. So a computed value can differ from the
  one of the code where a double product or quotient is inexact (\<open>0.285 * 100\<close> is
  \<open>28.499999999999996\<close> as a double and rounds to 28, and \<open>28.5\<close> here, which rounds to
  29), and a JSON number beyond the double range, which decodes to \<open>Infinity\<close>, has no
  counterpart. The statements below are about which entries exist, about \<open>NaN\<close>, zero
  and defaults, and about division by 1024 followed by \<open>Math.round\<close>, which is exact on
  finite doubles; none depends on a rounded product.
\<close>

datatype jsnum = NaN | Fin rat

text \<open>
  An object is the list of its own properties; \<open>map_of\<close> reads a property.
  \<open>JUndefined\<close> is the value of a missing property (JSON itself has no such value).
\<close>

datatype js =
    JUndefined
  | JNull
  | JBool bool
  | JNum jsnum
  | JStr string
  | JArr "js list"
  | JObj "(string \<times> js) list"

text \<open>
  What the code throws: \<open>new Error(message)\<close>; the rate-limit error, which is
  \<open>new Error(`The Google PageSpeed API is currently under heavy load (429). Attempt
  ${a} of ${n} failed.`)\<close>, kept as its two numbers \<open>a\<close> and \<open>n\<close>; and a \<open>TypeError\<close>,
  raised by the runtime (a property read on \<open>undefined\<close> or \<open>null\<close>, a call of something
  that is no function, a failed conversion to a primitive) or by \<open>fetch\<close>.
\<close>

datatype error = Error string | RateLimitError nat int | TypeError

text \<open>
  A step that may throw returns \<open>Inl\<close> of the error or \<open>Inr\<close> of its value, and
  \<open>bind_err\<close> runs the next step on the value. \<open>mapM_err\<close> and \<open>filterM_err\<close> are
  \<open>Array.prototype.map\<close> and \<open>filter\<close> with a callback that may throw: they go through the
  array in order and stop at the first throw.
\<close>

fun bind_err :: "error + 'a \<Rightarrow> ('a \<Rightarrow> error + 'b) \<Rightarrow> error + 'b" where
  "bind_err (Inl e) f = Inl e"
| "bind_err (Inr x) f = f x"

fun mapM_err :: "('a \<Rightarrow> error + 'b) \<Rightarrow> 'a list \<Rightarrow> error + 'b list" where
  "mapM_err f [] = Inr []"
| "mapM_err f (x # xs) =
     bind_err (f x) (\<lambda>y. bind_err (mapM_err f xs) (\<lambda>ys. Inr (y # ys)))"

fun filterM_err :: "('a \<Rightarrow> error + bool) \<Rightarrow> 'a list \<Rightarrow> error + 'a list" where
  "filterM_err p [] = Inr []"
| "filterM_err p (x # xs) =
     bind_err (p x) (\<lambda>b. bind_err (filterM_err p xs)
       (\<lambda>ys. Inr (if b then x # ys else ys)))"

text \<open>Truthiness, as \<open>!v\<close> and \<open>v || w\<close> test it.\<close>

fun truthy :: "js \<Rightarrow> bool" where
  "truthy JUndefined = False"
| "truthy JNull = False"
| "truthy (JBool b) = b"
| "truthy (JNum NaN) = False"
| "truthy (JNum (Fin r)) = (r \<noteq> 0)"
| "truthy (JStr s) = (s \<noteq> [])"
| "truthy (JArr xs) = True"
| "truthy (JObj kvs) = True"

definition js_or :: "js \<Rightarrow> js \<Rightarrow> js" where
  "js_or a b = (if truthy a then a else b)"

definition nullish :: "js \<Rightarrow> bool" where
  "nullish v = (v = JUndefined \<or> v = JNull)"

text \<open>
  \<open>own v k\<close> is the property \<open>k\<close> of a value that is neither \<open>undefined\<close> nor \<open>null\<close>.
  The keys this program reads are fixed, and none of them is a property of the string,
  number, boolean or array prototypes, so only an object can hold one.
\<close>

definition own :: "js \<Rightarrow> string \<Rightarrow> js" where
  "own v k = (case v of
     JObj kvs \<Rightarrow> (case map_of kvs k of Some x \<Rightarrow> x | None \<Rightarrow> JUndefined)
   | _ \<Rightarrow> JUndefined)"

text \<open>\<open>v[k]\<close> and \<open>v.k\<close>: a TypeError on \<open>undefined\<close> and \<open>null\<close>.\<close>

definition get_prop :: "js \<Rightarrow> string \<Rightarrow> error + js" where
  "get_prop v k = (if nullish v then Inl TypeError else Inr (own v k))"

text \<open>\<open>v?.k\<close>: \<open>undefined\<close> on \<open>undefined\<close> and \<open>null\<close>.\<close>

definition opt_prop :: "js \<Rightarrow> string \<Rightarrow> js" where
  "opt_prop v k = (if nullish v then JUndefined else own v k)"

text \<open>
  The conversion of an operand to a number. On \<open>undefined\<close>, \<open>null\<close>, booleans and numbers
  it is fixed by the language. On a string it parses a numeric literal, and on an array
  or an object it goes through the conversion to a primitive; both are left to the
  parameter \<open>cv\<close>, where \<open>None\<close> stands for the TypeError of a failed conversion. Every
  theorem below holds for every \<open>cv\<close>.
\<close>

definition ToNumber :: "(js \<Rightarrow> jsnum option) \<Rightarrow> js \<Rightarrow> error + jsnum" where
  "ToNumber cv v = (case v of
     JUndefined \<Rightarrow> Inr NaN
   | JNull \<Rightarrow> Inr (Fin 0)
   | JBool b \<Rightarrow> Inr (Fin (if b then 1 else 0))
   | JNum n \<Rightarrow> Inr n
   | _ \<Rightarrow> (case cv v of None \<Rightarrow> Inl TypeError | Some n \<Rightarrow> Inr n))"

text \<open>\<open>x * c\<close> and \<open>x / c\<close> for a numeric literal \<open>c\<close> (100, 1000 and 1024 in this program).\<close>

fun js_mul :: "jsnum \<Rightarrow> rat \<Rightarrow> jsnum" where
  "js_mul NaN c = NaN"
| "js_mul (Fin a) c = Fin (a * c)"

fun js_div :: "jsnum \<Rightarrow> rat \<Rightarrow> jsnum" where
  "js_div NaN c = NaN"
| "js_div (Fin a) c = Fin (a / c)"

text \<open>\<open>Math.round\<close>: the nearest integer, a tie going up.\<close>

fun Math_round :: "jsnum \<Rightarrow> jsnum" where
  "Math_round NaN = NaN"
| "Math_round (Fin a) = Fin (of_int \<lfloor>a + 1 / 2\<rfloor>)"

text \<open>
  \<open>parseFloat(x.toFixed(d))\<close>: \<open>toFixed\<close> writes \<open>x\<close> with \<open>d\<close> decimals, a tie going away
  from zero, and \<open>"NaN"\<close> for \<open>NaN\<close>; \<open>parseFloat\<close> reads the string back. The string is not
  materialised.
\<close>

fun toFixed_parseFloat :: "nat \<Rightarrow> jsnum \<Rightarrow> jsnum" where
  "toFixed_parseFloat d NaN = NaN"
| "toFixed_parseFloat d (Fin a) =
     Fin (sgn a * of_int \<lfloor>\<bar>a\<bar> * 10 ^ d + 1 / 2\<rfloor> / 10 ^ d)"

text \<open>\<open>x || y\<close> on two numbers: \<open>NaN\<close> and zero are falsy.\<close>

definition num_or :: "jsnum \<Rightarrow> jsnum \<Rightarrow> jsnum" where
  "num_or x y = (if truthy (JNum x) then x else y)"

section \<open>The report\<close>

text \<open>
  The interfaces of the report. The TypeScript types say \<open>string\<close> for titles, labels and
  descriptions, but the values come unchecked from the document, so these fields hold any
  value. A \<open>null\<close> score of \<open>DetailedAudit\<close> is \<open>None\<close>.
\<close>

record PerformanceMetric =
  m_name :: string
  m_value :: jsnum
  m_unit :: string
  m_score :: jsnum
  m_category :: string
  m_description :: js

record DetailedAudit =
  a_id :: string
  a_title :: js
  a_score :: "jsnum option"
  a_description :: js

record ResourceEntry =
  e_name :: js
  e_value :: jsnum
  e_color :: string

record Report =
  rp_metrics :: "PerformanceMetric list"
  rp_seoAudits :: "DetailedAudit list"
  rp_accessibilityAudits :: "DetailedAudit list"
  rp_overallScore :: jsnum
  rp_resourceBreakdown :: "ResourceEntry list"

section \<open>fetchLighthouseMetrics: the mapping of the decoded document\<close>

text \<open>\<open>Math.round((v || 0) * 100)\<close>, the score of every metric and the overall score.\<close>

definition score100 :: "(js \<Rightarrow> jsnum option) \<Rightarrow> js \<Rightarrow> error + jsnum" where
  "score100 cv v =
     bind_err (ToNumber cv (js_or v (JNum (Fin 0)))) (\<lambda>n. Inr (Math_round (js_mul n 100)))"

definition fcp_fallback :: string where
  "fcp_fallback = ''FCP measures how long it takes for the browser to render the first piece of DOM content.''"

definition lcp_fallback :: string where
  "lcp_fallback = ''LCP marks the point in the page load timeline when the main content has likely loaded.''"

definition tbt_fallback :: string where
  "tbt_fallback = ''TBT measures the total amount of time that a page is blocked from responding to user input.''"

definition cls_fallback :: string where
  "cls_fallback = ''CLS measures the sum total of all individual layout shift scores for every unexpected layout shift.''"

definition seo_description :: string where
  "seo_description = ''Lighthouse SEO audit score based on search engine optimization best practices.''"

definition accessibility_description :: string where
  "accessibility_description = ''Evaluates how accessible your website is for people with disabilities or impairments.''"

text \<open>
  The six entries of \<open>metrics\<close>. Each reads \<open>audits[key]\<close> (or \<open>categories[key]\<close>) once
  per field; the reads are pure, so the model reads once.
\<close>

definition metric_fcp :: "(js \<Rightarrow> jsnum option) \<Rightarrow> js \<Rightarrow> error + PerformanceMetric" where
  "metric_fcp cv audits =
     bind_err (get_prop audits ''first-contentful-paint'') (\<lambda>a.
     bind_err (ToNumber cv (opt_prop a ''numericValue'')) (\<lambda>nv.
     bind_err (score100 cv (opt_prop a ''score'')) (\<lambda>sc.
       Inr \<lparr>m_name = ''First Contentful Paint'',
            m_value = num_or (toFixed_parseFloat 2 (js_div nv 1000)) (Fin 0),
            m_unit = ''s'',
            m_score = sc,
            m_category = ''speed'',
            m_description = js_or (opt_prop a ''description'') (JStr fcp_fallback)\<rparr>)))"

definition metric_lcp :: "(js \<Rightarrow> jsnum option) \<Rightarrow> js \<Rightarrow> error + PerformanceMetric" where
  "metric_lcp cv audits =
     bind_err (get_prop audits ''largest-contentful-paint'') (\<lambda>a.
     bind_err (ToNumber cv (opt_prop a ''numericValue'')) (\<lambda>nv.
     bind_err (score100 cv (opt_prop a ''score'')) (\<lambda>sc.
       Inr \<lparr>m_name = ''Largest Contentful Paint'',
            m_value = num_or (toFixed_parseFloat 2 (js_div nv 1000)) (Fin 0),
            m_unit = ''s'',
            m_score = sc,
            m_category = ''speed'',
            m_description = js_or (opt_prop a ''description'') (JStr lcp_fallback)\<rparr>)))"

definition metric_tbt :: "(js \<Rightarrow> jsnum option) \<Rightarrow> js \<Rightarrow> error + PerformanceMetric" where
  "metric_tbt cv audits =
     bind_err (get_prop audits ''total-blocking-time'') (\<lambda>a.
     bind_err (ToNumber cv (js_or (opt_prop a ''numericValue'') (JNum (Fin 0)))) (\<lambda>nv.
     bind_err (score100 cv (opt_prop a ''score'')) (\<lambda>sc.
       Inr \<lparr>m_name = ''Total Blocking Time'',
            m_value = Math_round nv,
            m_unit = ''ms'',
            m_score = sc,
            m_category = ''speed'',
            m_description = js_or (opt_prop a ''description'') (JStr tbt_fallback)\<rparr>)))"

text \<open>
  Here \<open>toFixed\<close> is called on \<open>numericValue || 0\<close> itself: a truthy value that is no
  number has no such method, and the call is a TypeError.
\<close>

definition metric_cls :: "(js \<Rightarrow> jsnum option) \<Rightarrow> js \<Rightarrow> error + PerformanceMetric" where
  "metric_cls cv audits =
     bind_err (get_prop audits ''cumulative-layout-shift'') (\<lambda>a.
     bind_err (case js_or (opt_prop a ''numericValue'') (JNum (Fin 0)) of
                 JNum n \<Rightarrow> Inr (toFixed_parseFloat 3 n)
               | _ \<Rightarrow> Inl TypeError) (\<lambda>v.
     bind_err (score100 cv (opt_prop a ''score'')) (\<lambda>sc.
       Inr \<lparr>m_name = ''Cumulative Layout Shift'',
            m_value = v,
            m_unit = [],
            m_score = sc,
            m_category = ''ux'',
            m_description = js_or (opt_prop a ''description'') (JStr cls_fallback)\<rparr>)))"

definition metric_seo :: "(js \<Rightarrow> jsnum option) \<Rightarrow> js \<Rightarrow> error + PerformanceMetric" where
  "metric_seo cv categories =
     bind_err (get_prop categories ''seo'') (\<lambda>c.
     bind_err (score100 cv (opt_prop c ''score'')) (\<lambda>sc.
       Inr \<lparr>m_name = ''SEO Score'',
            m_value = sc,
            m_unit = [],
            m_score = sc,
            m_category = ''seo'',
            m_description = JStr seo_description\<rparr>))"

definition metric_accessibility :: "(js \<Rightarrow> jsnum option) \<Rightarrow> js \<Rightarrow> error + PerformanceMetric" where
  "metric_accessibility cv categories =
     bind_err (get_prop categories ''accessibility'') (\<lambda>c.
     bind_err (score100 cv (opt_prop c ''score'')) (\<lambda>sc.
       Inr \<lparr>m_name = ''Accessibility Score'',
            m_value = sc,
            m_unit = [],
            m_score = sc,
            m_category = ''accessibility'',
            m_description = JStr accessibility_description\<rparr>))"

definition metrics :: "(js \<Rightarrow> jsnum option) \<Rightarrow> js \<Rightarrow> js \<Rightarrow> error + PerformanceMetric list" where
  "metrics cv audits categories =
     bind_err (metric_fcp cv audits) (\<lambda>m1.
     bind_err (metric_lcp cv audits) (\<lambda>m2.
     bind_err (metric_tbt cv audits) (\<lambda>m3.
     bind_err (metric_cls cv audits) (\<lambda>m4.
     bind_err (metric_seo cv categories) (\<lambda>m5.
     bind_err (metric_accessibility cv categories) (\<lambda>m6.
       Inr [m1, m2, m3, m4, m5, m6]))))))"

text \<open>
  One entry of a detailed-audit list, before the filter. The score is
  \<open>audit?.score !== undefined ? Math.round(audit.score * 100) : null\<close>.
\<close>

definition detailedAudit :: "(js \<Rightarrow> jsnum option) \<Rightarrow> js \<Rightarrow> string \<Rightarrow> error + DetailedAudit" where
  "detailedAudit cv audits i =
     bind_err (get_prop audits i) (\<lambda>audit.
     bind_err (if opt_prop audit ''score'' \<noteq> JUndefined
               then bind_err (ToNumber cv (opt_prop audit ''score''))
                      (\<lambda>n. Inr (Some (Math_round (js_mul n 100))))
               else Inr None) (\<lambda>sc.
       Inr \<lparr>a_id = i,
            a_title = js_or (opt_prop audit ''title'') (JStr i),
            a_score = sc,
            a_description = js_or (opt_prop audit ''description'') (JStr [])\<rparr>))"

definition seoAuditIds :: "string list" where
  "seoAuditIds = [''viewport'', ''document-title'', ''meta-description'', ''image-alt'',
     ''link-text'', ''http-status-code'', ''is-crawlable'']"

definition accessibilityAuditIds :: "string list" where
  "accessibilityAuditIds = [''color-contrast'', ''document-title'', ''html-has-lang'',
     ''image-alt'', ''label'', ''link-name'', ''list'', ''listitem'']"

definition detailedAudits :: "(js \<Rightarrow> jsnum option) \<Rightarrow> js \<Rightarrow> string list \<Rightarrow> error + DetailedAudit list" where
  "detailedAudits cv audits ids =
     bind_err (mapM_err (detailedAudit cv audits) ids)
       (\<lambda>as. Inr (filter (\<lambda>a. a_score a \<noteq> None) as))"

definition seoAudits :: "(js \<Rightarrow> jsnum option) \<Rightarrow> js \<Rightarrow> error + DetailedAudit list" where
  "seoAudits cv audits = detailedAudits cv audits seoAuditIds"

definition accessibilityAudits :: "(js \<Rightarrow> jsnum option) \<Rightarrow> js \<Rightarrow> error + DetailedAudit list" where
  "accessibilityAudits cv audits = detailedAudits cv audits accessibilityAuditIds"

definition overallScore :: "(js \<Rightarrow> jsnum option) \<Rightarrow> js \<Rightarrow> error + jsnum" where
  "overallScore cv categories =
     bind_err (get_prop categories ''performance'') (\<lambda>c. score100 cv (opt_prop c ''score''))"

text \<open>\<open>audits['resource-summary']?.details?.items || []\<close>\<close>

definition resourceSummary :: "js \<Rightarrow> error + js" where
  "resourceSummary audits =
     bind_err (get_prop audits ''resource-summary'') (\<lambda>a.
       Inr (js_or (opt_prop (opt_prop a ''details'') ''items'') (JArr [])))"

definition colors :: "string list" where
  "colors = [''#f59e0b'', ''#10b981'', ''#3b82f6'', ''#8b5cf6'', ''#64748b'', ''#ec4899'']"

text \<open>The callback of \<open>filter\<close>: \<open>item.resourceType !== 'total'\<close>.\<close>

definition not_total :: "js \<Rightarrow> error + bool" where
  "not_total item =
     bind_err (get_prop item ''resourceType'') (\<lambda>t. Inr (t \<noteq> JStr ''total''))"

text \<open>The callback of \<open>map\<close>, on the item and its index in the filtered list.\<close>

definition resourceEntry :: "(js \<Rightarrow> jsnum option) \<Rightarrow> js \<times> nat \<Rightarrow> error + ResourceEntry" where
  "resourceEntry cv p = (case p of (item, idx) \<Rightarrow>
     bind_err (get_prop item ''label'') (\<lambda>l.
     bind_err (get_prop item ''transferSize'') (\<lambda>t.
     bind_err (ToNumber cv t) (\<lambda>n.
       Inr \<lparr>e_name = l,
            e_value = Math_round (js_div n 1024),
            e_color = colors ! (idx mod length colors)\<rparr>))))"

text \<open>
  \<open>resourceSummary.filter(...).map(...).slice(0, 6)\<close>. Only an array has \<open>filter\<close>:
  on any other truthy value the call is a TypeError. The whole list is filtered, then
  the whole filtered list is mapped, then it is cut.
\<close>

definition resourceBreakdown :: "(js \<Rightarrow> jsnum option) \<Rightarrow> js \<Rightarrow> error + ResourceEntry list" where
  "resourceBreakdown cv audits =
     bind_err (resourceSummary audits) (\<lambda>rs.
       case rs of
         JArr items \<Rightarrow>
           bind_err (filterM_err not_total items) (\<lambda>kept.
           bind_err (mapM_err (resourceEntry cv) (zip kept [0..<length kept])) (\<lambda>es.
             Inr (take 6 es)))
       | _ \<Rightarrow> Inl TypeError)"

text \<open>The entry returned when the list above is empty.\<close>

definition fallbackBreakdown :: "(js \<Rightarrow> jsnum option) \<Rightarrow> js \<Rightarrow> error + ResourceEntry list" where
  "fallbackBreakdown cv audits =
     bind_err (get_prop audits ''total-byte-weight'') (\<lambda>a.
     bind_err (ToNumber cv (js_or (opt_prop a ''numericValue'') (JNum (Fin 0)))) (\<lambda>n.
       Inr [\<lparr>e_name = JStr ''Assets'',
             e_value = num_or (Math_round (js_div n 1024)) (Fin 0),
             e_color = ''#3b82f6''\<rparr>]))"

definition schema_message :: string where
  "schema_message = ''Analysis engine failed to return results. This often happens with sites that use heavy bot protection.''"

text \<open>
  \<open>normalize cv data\<close> is the body of \<open>fetchLighthouseMetrics\<close> from the decoded document
  \<open>data\<close> on: the check of \<open>data.lighthouseResult\<close>, the five parts of the report in the
  order the code builds them, and the returned object. \<open>Inl\<close> is what it throws. The
  enclosing \<open>catch\<close> rethrows all of these unchanged: it rewrites only a TypeError whose
  message is \<open>'Failed to fetch'\<close>, which comes from \<open>fetch\<close>.
\<close>

definition normalize :: "(js \<Rightarrow> jsnum option) \<Rightarrow> js \<Rightarrow> error + Report" where
  "normalize cv data =
     bind_err (get_prop data ''lighthouseResult'') (\<lambda>lighthouse.
       if \<not> truthy lighthouse then Inl (Error schema_message)
       else
         bind_err (get_prop lighthouse ''audits'') (\<lambda>audits.
         bind_err (get_prop lighthouse ''categories'') (\<lambda>categories.
         bind_err (metrics cv audits categories) (\<lambda>ms.
         bind_err (seoAudits cv audits) (\<lambda>seo.
         bind_err (accessibilityAudits cv audits) (\<lambda>acc.
         bind_err (overallScore cv categories) (\<lambda>overall.
         bind_err (resourceBreakdown cv audits) (\<lambda>rb.
         bind_err (if length rb > 0 then Inr rb else fallbackBreakdown cv audits) (\<lambda>rb'.
           Inr \<lparr>rp_metrics = ms,
                rp_seoAudits = seo,
                rp_accessibilityAudits = acc,
                rp_overallScore = overall,
                rp_resourceBreakdown = rb'\<rparr>)))))))))"

section \<open>fetchWithRetry\<close>

text \<open>
  The world the fetcher runs in: \<open>fetch_result url k\<close> is what the \<open>k\<close>-th call of
  \<open>fetch(url)\<close> does (it resolves with a response or rejects with an error), and
  \<open>random k\<close> is the \<open>k\<close>-th value of \<open>Math.random()\<close>. The trace records what the
  fetcher did: the number of requests, the number of random draws, and the duration of
  every \<open>sleep\<close>, in order.
\<close>

record response =
  status :: nat
  body :: js

datatype outcome = Resolves response | Rejects error

record world =
  fetch_result :: "string \<Rightarrow> nat \<Rightarrow> outcome"
  random :: "nat \<Rightarrow> rat"

record trace =
  requests :: nat
  draws :: nat
  sleeps :: "rat list"

definition sleep :: "rat \<Rightarrow> trace \<Rightarrow> trace" where
  "sleep ms t = t\<lparr>sleeps := sleeps t @ [ms]\<rparr>"

text \<open>
  The \<open>for\<close> loop and the final \<open>throw\<close>, from the state at the head of iteration \<open>i\<close>:
  \<open>currentBackoff\<close>, \<open>lastError\<close> (\<open>None\<close> is \<open>null\<close>) and the trace so far. A rate-limited
  or failed last attempt falls out of its branch, and the loop ends at the next test.
\<close>

function retry_loop ::
  "world \<Rightarrow> string \<Rightarrow> int \<Rightarrow> nat \<Rightarrow> rat \<Rightarrow> error option \<Rightarrow> trace \<Rightarrow> (error + response) \<times> trace" where
  "retry_loop w url retries i currentBackoff lastError t =
     (if int i < retries then
        (let t1 = t\<lparr>requests := requests t + 1\<rparr> in
         case fetch_result w url (requests t) of
           Resolves resp \<Rightarrow>
             if status resp = 429 then
               (let lastError' = Some (RateLimitError (i + 1) retries) in
                if int i < retries - 1 then
                  (let jitter = random w (draws t1) * 2000;
                       waitTime = currentBackoff + jitter;
                       t2 = sleep waitTime (t1\<lparr>draws := draws t1 + 1\<rparr>)
                   in retry_loop w url retries (i + 1) (currentBackoff * (5 / 2)) lastError' t2)
                else retry_loop w url retries (i + 1) currentBackoff lastError' t1)
             else (Inr resp, t1)
         | Rejects err \<Rightarrow>
             if int i < retries - 1 then
               retry_loop w url retries (i + 1) (currentBackoff * 2) (Some err)
                 (sleep currentBackoff t1)
             else retry_loop w url retries (i + 1) currentBackoff (Some err) t1)
      else
        (case lastError of
           Some e \<Rightarrow> (Inl e, t)
         | None \<Rightarrow> (Inl (Error ''Connection failed after multiple attempts.''), t)))"
  by pat_completeness auto
termination
  by (relation "measure (\<lambda>(w, url, retries, i, cb, le, t). nat (retries - int i))") auto

definition fetchWithRetry :: "world \<Rightarrow> string \<Rightarrow> int \<Rightarrow> rat \<Rightarrow> (error + response) \<times> trace" where
  "fetchWithRetry w url retries initialBackoff =
     retry_loop w url retries 0 initialBackoff None
       \<lparr>requests = 0, draws = 0, sleeps = []\<rparr>"

text \<open>The call with the default parameters, \<open>retries = 7\<close> and \<open>initialBackoff = 4000\<close>.\<close>

definition fetchWithRetry_default :: "world \<Rightarrow> string \<Rightarrow> (error + response) \<times> trace" where
  "fetchWithRetry_default w url = fetchWithRetry w url 7 4000"

section \<open>Names used in the statements\<close>

text \<open>
  The \<open>audits\<close> and \<open>categories\<close> objects of a document, and the source list of the
  resource breakdown, \<open>audits['resource-summary']?.details?.items\<close>.
\<close>

definition audits_of :: "js \<Rightarrow> js" where
  "audits_of data = own (own data ''lighthouseResult'') ''audits''"

definition categories_of :: "js \<Rightarrow> js" where
  "categories_of data = own (own data ''lighthouseResult'') ''categories''"

definition summary_items :: "js \<Rightarrow> js" where
  "summary_items audits = opt_prop (opt_prop (own audits ''resource-summary'') ''details'') ''items''"

text \<open>
  The test of the score of a detailed audit, \<open>audits[i]?.score !== undefined\<close>, and the
  test of the \<open>filter\<close> callback on an item that is neither \<open>undefined\<close> nor \<open>null\<close>.
\<close>

definition score_defined :: "js \<Rightarrow> string \<Rightarrow> bool" where
  "score_defined audits i = (opt_prop (own audits i) ''score'' \<noteq> JUndefined)"

definition non_total :: "js \<Rightarrow> bool" where
  "non_total item = (own item ''resourceType'' \<noteq> JStr ''total'')"

text \<open>
  What a missing source field does to a metric: each of the three fields of a metric
  read from an audit has its own default, and a metric read from a category has a fixed
  description. A field is missing when it is \<open>undefined\<close> (the key is absent) or \<open>null\<close>.
\<close>

definition audit_metric_defaults :: "js \<Rightarrow> string \<Rightarrow> PerformanceMetric \<Rightarrow> bool" where
  "audit_metric_defaults a fallback m =
     ((nullish (opt_prop a ''numericValue'') \<longrightarrow> m_value m = Fin 0)
    \<and> (nullish (opt_prop a ''score'') \<longrightarrow> m_score m = Fin 0)
    \<and> (nullish (opt_prop a ''description'') \<longrightarrow> m_description m = JStr fallback))"

definition category_metric_defaults :: "js \<Rightarrow> string \<Rightarrow> PerformanceMetric \<Rightarrow> bool" where
  "category_metric_defaults c description m =
     ((nullish (opt_prop c ''score'') \<longrightarrow> m_value m = Fin 0 \<and> m_score m = Fin 0)
    \<and> m_description m = JStr description)"

text \<open>
  The documents on which the mapping returns a report (when no conversion to a number
  fails): the result is truthy, \<open>audits\<close> and \<open>categories\<close> are neither \<open>undefined\<close> nor
  \<open>null\<close>, the \<open>numericValue\<close> of \<open>cumulative-layout-shift\<close> is falsy or a number, and the
  source list of the resource breakdown is falsy or an array without \<open>undefined\<close> or \<open>null\<close>
  entries. No audit and no category has to be present, and no field of an item.
\<close>

definition well_formed :: "js \<Rightarrow> bool" where
  "well_formed data =
     (\<not> nullish data \<and> truthy (own data ''lighthouseResult'')
    \<and> \<not> nullish (audits_of data) \<and> \<not> nullish (categories_of data)
    \<and> (case js_or (opt_prop (own (audits_of data) ''cumulative-layout-shift'') ''numericValue'')
                (JNum (Fin 0)) of
          JNum n \<Rightarrow> True | _ \<Rightarrow> False)
    \<and> (case js_or (summary_items (audits_of data)) (JArr []) of
          JArr items \<Rightarrow> list_all (\<lambda>item. \<not> nullish item) items | _ \<Rightarrow> False))"

section \<open>Inputs used to run the definitions\<close>

text \<open>
  The conversion parameter for documents that hold only \<open>undefined\<close>, \<open>null\<close>, booleans
  and numbers where a number is expected: the conversion is then never consulted, and a
  run that did consult it would fail with a TypeError.
\<close>

definition unused_coercion :: "js \<Rightarrow> jsnum option" where
  "unused_coercion v = None"

text \<open>A conversion that never fails: it reads every string, array and object as \<open>NaN\<close>.\<close>

definition nan_coercion :: "js \<Rightarrow> jsnum option" where
  "nan_coercion v = Some NaN"

text \<open>
  Documents: one with empty \<open>audits\<close> and \<open>categories\<close>; one whose top-level result is
  \<open>false\<close>; one with a \<open>null\<close> audit score; one with audit scores 1 and 0 and an audit
  without a score; one whose first metric has a description only; one with a total byte
  weight and no resource summary; one whose resource summary has only a \<open>total\<close> row; one
  with an item that has no \<open>transferSize\<close>; one with an audit that has a title and no
  \<open>score\<close> property; one with an item whose \<open>transferSize\<close> is \<open>null\<close>.
\<close>

definition bare_document :: js where
  "bare_document =
     JObj [(''lighthouseResult'', JObj [(''audits'', JObj []), (''categories'', JObj [])])]"

definition falsy_result_document :: js where
  "falsy_result_document = JObj [(''lighthouseResult'', JBool False)]"

definition null_score_document :: js where
  "null_score_document =
     JObj [(''lighthouseResult'', JObj
       [(''audits'', JObj
          [(''viewport'', JObj [(''title'', JStr ''Has a viewport tag''), (''score'', JNull)])]),
        (''categories'', JObj [])])]"

definition scored_document :: js where
  "scored_document =
     JObj [(''lighthouseResult'', JObj
       [(''audits'', JObj
          [(''viewport'', JObj [(''score'', JNum (Fin 1))]),
           (''document-title'', JObj [(''score'', JNum (Fin 0))]),
           (''image-alt'', JObj [(''title'', JStr ''Image elements have alt attributes'')])]),
        (''categories'', JObj [])])]"

definition described_document :: js where
  "described_document =
     JObj [(''lighthouseResult'', JObj
       [(''audits'', JObj
          [(''first-contentful-paint'', JObj [(''description'', JStr ''Time to first paint.'')])]),
        (''categories'', JObj [])])]"

definition weight_document :: js where
  "weight_document =
     JObj [(''lighthouseResult'', JObj
       [(''audits'', JObj
          [(''total-byte-weight'', JObj [(''numericValue'', JNum (Fin 3000))])]),
        (''categories'', JObj [])])]"

definition all_total_document :: js where
  "all_total_document =
     JObj [(''lighthouseResult'', JObj
       [(''audits'', JObj
          [(''resource-summary'', JObj [(''details'', JObj [(''items'', JArr
             [JObj [(''resourceType'', JStr ''total''), (''label'', JStr ''Total''),
                    (''transferSize'', JNum (Fin 2048))]])])]),
           (''total-byte-weight'', JObj [(''numericValue'', JNum (Fin 2048))])]),
        (''categories'', JObj [])])]"

definition unsized_item_document :: js where
  "unsized_item_document =
     JObj [(''lighthouseResult'', JObj
       [(''audits'', JObj
          [(''resource-summary'', JObj [(''details'', JObj [(''items'', JArr
             [JObj [(''resourceType'', JStr ''total''), (''label'', JStr ''Total''),
                    (''transferSize'', JNum (Fin 4096))],
              JObj [(''resourceType'', JStr ''script''), (''label'', JStr ''Script'')],
              JObj [(''resourceType'', JStr ''image''), (''label'', JStr ''Image''),
                    (''transferSize'', JNum (Fin 4096))]])])])]),
        (''categories'', JObj [])])]"

definition unscored_document :: js where
  "unscored_document =
     JObj [(''lighthouseResult'', JObj
       [(''audits'', JObj
          [(''viewport'', JObj [(''title'', JStr ''Has a viewport tag'')])]),
        (''categories'', JObj [])])]"

definition null_size_document :: js where
  "null_size_document =
     JObj [(''lighthouseResult'', JObj
       [(''audits'', JObj
          [(''resource-summary'', JObj [(''details'', JObj [(''items'', JArr
             [JObj [(''resourceType'', JStr ''script''), (''label'', JStr ''Script''),
                    (''transferSize'', JNull)]])])])]),
        (''categories'', JObj [])])]"

text \<open>
  Three worlds: the first two requests are rate limited and the third succeeds; every
  request is rate limited; every request fails in the network.
\<close>

definition rate_limited_twice :: world where
  "rate_limited_twice =
     \<lparr>fetch_result = (\<lambda>url k. Resolves \<lparr>status = (if k < 2 then 429 else 200), body = JNull\<rparr>),
      random = (\<lambda>k. 1 / 2)\<rparr>"

definition always_rate_limited :: world where
  "always_rate_limited =
     \<lparr>fetch_result = (\<lambda>url k. Resolves \<lparr>status = 429, body = JNull\<rparr>),
      random = (\<lambda>k. 1 / 4)\<rparr>"

definition offline :: world where
  "offline = \<lparr>fetch_result = (\<lambda>url k. Rejects TypeError), random = (\<lambda>k. 0)\<rparr>"

section \<open>Properties of fetchWithRetry\<close>

declare retry_loop.simps [simp del]

text \<open>One lemma for each way through an iteration of the loop.\<close>

lemma retry_loop_exhausted:
  "\<not> int i < retries \<Longrightarrow>
   retry_loop w url retries i cb le t =
     (Inl (case le of Some e \<Rightarrow> e
           | None \<Rightarrow> Error ''Connection failed after multiple attempts.''), t)"
  by (simp add: retry_loop.simps split: option.splits)

lemma retry_loop_rate_limited:
  assumes "int i < retries - 1"
    and "fetch_result w url (requests t) = Resolves resp" and "status resp = 429"
  shows "retry_loop w url retries i cb le t =
     retry_loop w url retries (i + 1) (cb * (5 / 2)) (Some (RateLimitError (i + 1) retries))
       (t\<lparr>requests := requests t + 1, draws := draws t + 1,
          sleeps := sleeps t @ [cb + random w (draws t) * 2000]\<rparr>)"
  using assms by (subst retry_loop.simps) (simp add: sleep_def Let_def)

lemma retry_loop_rate_limited_last:
  assumes "int i < retries" and "\<not> int i < retries - 1"
    and "fetch_result w url (requests t) = Resolves resp" and "status resp = 429"
  shows "retry_loop w url retries i cb le t =
     (Inl (RateLimitError (i + 1) retries), t\<lparr>requests := requests t + 1\<rparr>)"
proof -
  have "retry_loop w url retries i cb le t =
     retry_loop w url retries (i + 1) cb (Some (RateLimitError (i + 1) retries))
       (t\<lparr>requests := requests t + 1\<rparr>)"
    using assms by (subst retry_loop.simps) (simp add: Let_def)
  also have "\<dots> = (Inl (RateLimitError (i + 1) retries), t\<lparr>requests := requests t + 1\<rparr>)"
    using assms(2) by (subst retry_loop_exhausted) auto
  finally show ?thesis .
qed

lemma retry_loop_returns:
  assumes "int i < retries"
    and "fetch_result w url (requests t) = Resolves resp" and "status resp \<noteq> 429"
  shows "retry_loop w url retries i cb le t = (Inr resp, t\<lparr>requests := requests t + 1\<rparr>)"
  using assms by (subst retry_loop.simps) (simp add: Let_def)

lemma retry_loop_rejected:
  assumes "int i < retries - 1"
    and "fetch_result w url (requests t) = Rejects err"
  shows "retry_loop w url retries i cb le t =
     retry_loop w url retries (i + 1) (cb * 2) (Some err)
       (t\<lparr>requests := requests t + 1, sleeps := sleeps t @ [cb]\<rparr>)"
  using assms by (subst retry_loop.simps) (simp add: sleep_def Let_def)

lemma retry_loop_rejected_last:
  assumes "int i < retries" and "\<not> int i < retries - 1"
    and "fetch_result w url (requests t) = Rejects err"
  shows "retry_loop w url retries i cb le t = (Inl err, t\<lparr>requests := requests t + 1\<rparr>)"
proof -
  have "retry_loop w url retries i cb le t =
     retry_loop w url retries (i + 1) cb (Some err) (t\<lparr>requests := requests t + 1\<rparr>)"
    using assms by (subst retry_loop.simps) (simp add: Let_def)
  also have "\<dots> = (Inl err, t\<lparr>requests := requests t + 1\<rparr>)"
    using assms(2) by (subst retry_loop_exhausted) auto
  finally show ?thesis .
qed

text \<open>
  A failure of the loop entered at iteration \<open>i < retries\<close>, with \<open>i\<close> requests made so
  far: all \<open>retries\<close> requests were made, and the error is the one of the last attempt.
\<close>

lemma retry_loop_fails:
  assumes "retry_loop w url retries i cb le t = (Inl e, t')" and "requests t = i"
    and "int i < retries"
  shows "requests t' = nat retries \<and>
     (case fetch_result w url (nat retries - 1) of
        Rejects err \<Rightarrow> e = err
      | Resolves resp \<Rightarrow> status resp = 429 \<and> e = RateLimitError (nat retries) retries)"
  using assms
proof (induction w url retries i cb le t rule: retry_loop.induct)
  case (1 w url retries i cb le t)
  show ?case
  proof (cases "fetch_result w url (requests t)")
    case (Resolves resp)
    show ?thesis
    proof (cases "status resp = 429")
      case True
      show ?thesis
      proof (cases "int i < retries - 1")
        case less: True
        have step: "retry_loop w url retries i cb le t =
           retry_loop w url retries (i + 1) (cb * (5 / 2)) (Some (RateLimitError (i + 1) retries))
             (sleep (cb + random w (draws (t\<lparr>requests := requests t + 1\<rparr>)) * 2000)
                (t\<lparr>requests := requests t + 1\<rparr>\<lparr>draws := draws (t\<lparr>requests := requests t + 1\<rparr>) + 1\<rparr>))"
          using "1.prems" Resolves True less by (subst retry_loop.simps) (simp add: Let_def)
        show ?thesis
          using "1.IH"(1) [OF "1.prems"(3) refl Resolves True refl less refl refl refl]
            "1.prems" step less
          by (simp add: sleep_def)
      next
        case False
        have "i = nat retries - 1" using False "1.prems" by linarith
        then show ?thesis
          using retry_loop_rate_limited_last [OF "1.prems"(3) False Resolves True, of cb le]
            "1.prems" Resolves True by auto
      qed
    next
      case False
      then show ?thesis
        using retry_loop_returns [OF "1.prems"(3) Resolves False, of cb le] "1.prems" by simp
    qed
  next
    case (Rejects err)
    show ?thesis
    proof (cases "int i < retries - 1")
      case less: True
      have step: "retry_loop w url retries i cb le t =
         retry_loop w url retries (i + 1) (cb * 2) (Some err)
           (sleep cb (t\<lparr>requests := requests t + 1\<rparr>))"
        using "1.prems" Rejects less by (subst retry_loop.simps) (simp add: Let_def)
      show ?thesis
        using "1.IH"(3) [OF "1.prems"(3) refl Rejects less] "1.prems" step less
        by (simp add: sleep_def)
    next
      case False
      have "i = nat retries - 1" using False "1.prems" by linarith
      then show ?thesis
        using retry_loop_rejected_last [OF "1.prems"(3) False Rejects, of cb le]
          "1.prems" Rejects by auto
    qed
  qed
qed

text \<open>
  C5. When the first two responses have status 429 and the third has status 200, and
  at least three attempts are allowed (the default is 7), the fetcher returns the third
  response after three requests and exactly two sleeps. The first sleep lasts
  \<open>initialBackoff\<close> plus a jitter and the second \<open>initialBackoff * 2.5\<close> plus a jitter.
  Each jitter is \<open>Math.random() * 2000\<close>, a fresh draw for each sleep, so it lies in
  \<open>[0, 2000)\<close> as the draw lies in \<open>[0, 1)\<close>.
\<close>

theorem fetchWithRetry_429_429_200:
  assumes "3 \<le> retries"
    and "fetch_result w url 0 = Resolves r0" and "status r0 = 429"
    and "fetch_result w url 1 = Resolves r1" and "status r1 = 429"
    and "fetch_result w url 2 = Resolves r2" and "status r2 = 200"
    and "0 \<le> random w 0 \<and> random w 0 < 1" and "0 \<le> random w 1 \<and> random w 1 < 1"
  shows "fetchWithRetry w url retries initialBackoff =
           (Inr r2, \<lparr>requests = 3, draws = 2,
                     sleeps = [initialBackoff + random w 0 * 2000,
                               initialBackoff * (5 / 2) + random w 1 * 2000]\<rparr>)
         \<and> 0 \<le> random w 0 * 2000 \<and> random w 0 * 2000 < 2000
         \<and> 0 \<le> random w 1 * 2000 \<and> random w 1 * 2000 < 2000"
proof -
  have "fetchWithRetry w url retries initialBackoff =
           (Inr r2, \<lparr>requests = 3, draws = 2,
                     sleeps = [initialBackoff + random w 0 * 2000,
                               initialBackoff * (5 / 2) + random w 1 * 2000]\<rparr>)"
    unfolding fetchWithRetry_def
    using assms(1-7)
    by (simp add: retry_loop_rate_limited [where resp = r0]
          retry_loop_rate_limited [where resp = r1]
          retry_loop_returns [where resp = r2] numeral_2_eq_2 numeral_3_eq_3)
  then show ?thesis
    using assms(8,9) by simp
qed

theorem fetchWithRetry_429_429_200_witness:
  "fetchWithRetry_default rate_limited_twice ''https://example.com'' =
     (Inr \<lparr>status = 200, body = JNull\<rparr>,
      \<lparr>requests = 3, draws = 2, sleeps = [4000 + 1000, 10000 + 1000]\<rparr>)"
proof -
  have "fetchWithRetry rate_limited_twice ''https://example.com'' 7 4000 =
     (Inr \<lparr>status = 200, body = JNull\<rparr>,
      \<lparr>requests = 3, draws = 2,
       sleeps = [4000 + random rate_limited_twice 0 * 2000,
                 4000 * (5 / 2) + random rate_limited_twice 1 * 2000]\<rparr>)"
    using fetchWithRetry_429_429_200 [of 7 rate_limited_twice "''https://example.com''"
        "\<lparr>status = 429, body = JNull\<rparr>" "\<lparr>status = 429, body = JNull\<rparr>"
        "\<lparr>status = 200, body = JNull\<rparr>" 4000]
    by (simp add: rate_limited_twice_def)
  then show ?thesis
    by (simp add: fetchWithRetry_default_def rate_limited_twice_def)
qed

text \<open>
  C7. With \<open>retries = 1\<close> and a first response of status 429, the fetcher throws the
  rate-limit error of attempt 1 of 1 after exactly one request, with no sleep and no
  random draw.
\<close>

theorem fetchWithRetry_single_attempt_429:
  assumes "fetch_result w url 0 = Resolves resp" and "status resp = 429"
  shows "fetchWithRetry w url 1 initialBackoff =
           (Inl (RateLimitError 1 1), \<lparr>requests = 1, draws = 0, sleeps = []\<rparr>)"
  unfolding fetchWithRetry_def
  using assms by (subst retry_loop_rate_limited_last [where resp = resp]) auto

theorem fetchWithRetry_single_attempt_429_witness:
  "fetchWithRetry always_rate_limited ''https://example.com'' 1 4000 =
     (Inl (RateLimitError 1 1), \<lparr>requests = 1, draws = 0, sleeps = []\<rparr>)"
  using fetchWithRetry_single_attempt_429 [of always_rate_limited "''https://example.com''"
      "\<lparr>status = 429, body = JNull\<rparr>" 4000]
  by (simp add: always_rate_limited_def)

text \<open>
  C8, as the code has it. \<open>lastError\<close> is still \<open>null\<close> at the final \<open>throw\<close> exactly when
  no attempt was made, that is when \<open>retries \<le> 0\<close>: every attempt that does not return
  assigns it. Then the fetcher throws the generic error, whose message is
  \<open>Connection failed after multiple attempts.\<close>, with a capital and a full stop.
  Otherwise a failure comes after exactly \<open>retries\<close> requests and throws the error
  captured at the last one: what the last \<open>fetch\<close> rejected with, or the rate-limit
  error of attempt \<open>retries\<close> of \<open>retries\<close>.
\<close>

theorem fetchWithRetry_surfaces_last_error:
  assumes "fetchWithRetry w url retries initialBackoff = (Inl e, t)"
  shows "if retries \<le> 0
         then e = Error ''Connection failed after multiple attempts.'' \<and> requests t = 0
         else requests t = nat retries \<and>
           (case fetch_result w url (nat retries - 1) of
              Rejects err \<Rightarrow> e = err
            | Resolves resp \<Rightarrow> status resp = 429 \<and> e = RateLimitError (nat retries) retries)"
proof (cases "retries \<le> 0")
  case True
  then have "fetchWithRetry w url retries initialBackoff =
      (Inl (Error ''Connection failed after multiple attempts.''),
       \<lparr>requests = 0, draws = 0, sleeps = []\<rparr>)"
    unfolding fetchWithRetry_def by (subst retry_loop_exhausted) auto
  with assms True show ?thesis by auto
next
  case False
  then have "int 0 < retries" by simp
  from retry_loop_fails [OF assms [unfolded fetchWithRetry_def] _ this] False
  show ?thesis by simp
qed

theorem fetchWithRetry_surfaces_last_error_witness:
  "fetchWithRetry offline ''https://example.com'' 2 4000 =
     (Inl TypeError, \<lparr>requests = 2, draws = 0, sleeps = [4000]\<rparr>)
   \<and> fetch_result offline ''https://example.com'' 1 = Rejects TypeError"
proof -
  have run: "fetchWithRetry offline ''https://example.com'' 2 4000 =
     (Inl TypeError, \<lparr>requests = 2, draws = 0, sleeps = [4000]\<rparr>)"
    by code_simp
  from fetchWithRetry_surfaces_last_error [OF run]
  have "fetch_result offline ''https://example.com'' 1 = Rejects TypeError"
    by (cases "fetch_result offline ''https://example.com'' 1") (auto simp: offline_def)
  with run show ?thesis by simp
qed

text \<open>
  The message of the generic error is not the lower-case sentence without a full
  stop.
\<close>

theorem fetchWithRetry_generic_message_counterexample:
  "fst (fetchWithRetry offline ''https://example.com'' 0 4000) =
     Inl (Error ''Connection failed after multiple attempts.'')
   \<and> Error ''Connection failed after multiple attempts.'' \<noteq>
     Error ''connection failed after multiple attempts''"
  by code_simp

section \<open>Properties of the mapping\<close>

subsection \<open>Sequencing of fallible steps\<close>

lemma bind_err_Inr: "bind_err m f = Inr y \<longleftrightarrow> (\<exists>x. m = Inr x \<and> f x = Inr y)"
  by (cases m) auto

lemma bind_err_Inl: "bind_err m f = Inl e \<longleftrightarrow> m = Inl e \<or> (\<exists>x. m = Inr x \<and> f x = Inl e)"
  by (cases m) auto

lemma run_Inr: "\<not> isl x \<Longrightarrow> x = Inr (projr x)"
  by (cases x) auto

lemma get_prop_Inr: "get_prop v k = Inr x \<longleftrightarrow> \<not> nullish v \<and> x = own v k"
  by (auto simp: get_prop_def)

lemma get_prop_Inl: "get_prop v k = Inl e \<longleftrightarrow> nullish v \<and> e = TypeError"
  by (auto simp: get_prop_def)

lemma mapM_err_Inr:
  "mapM_err f xs = Inr ys \<Longrightarrow> length ys = length xs \<and> (\<forall>i<length xs. f (xs ! i) = Inr (ys ! i))"
proof (induction xs arbitrary: ys)
  case Nil
  then show ?case by simp
next
  case (Cons x xs)
  from Cons.prems obtain y ys' where y: "f x = Inr y" and ys': "mapM_err f xs = Inr ys'"
    and eq: "ys = y # ys'"
    by (auto simp: bind_err_Inr)
  from Cons.IH [OF ys'] have ih: "length ys' = length xs" "\<forall>i<length xs. f (xs ! i) = Inr (ys' ! i)"
    by auto
  show ?case
  proof (intro conjI allI impI)
    show "length ys = length (x # xs)" using eq ih by simp
  next
    fix i assume "i < length (x # xs)"
    then show "f ((x # xs) ! i) = Inr (ys ! i)"
      using y ih eq by (cases i) auto
  qed
qed

lemma filterM_err_Inr:
  "filterM_err p xs = Inr ys \<Longrightarrow> (\<forall>x\<in>set xs. \<exists>b. p x = Inr b) \<and> ys = filter (\<lambda>x. p x = Inr True) xs"
proof (induction xs arbitrary: ys)
  case Nil
  then show ?case by simp
next
  case (Cons x xs)
  from Cons.prems obtain b ys' where b: "p x = Inr b" and ys': "filterM_err p xs = Inr ys'"
    and eq: "ys = (if b then x # ys' else ys')"
    by (auto simp: bind_err_Inr)
  from Cons.IH [OF ys'] b eq show ?case by auto
qed

lemma mapM_err_Inl:
  "(\<forall>x e. f x = Inl e \<longrightarrow> e = TypeError) \<Longrightarrow> mapM_err f xs = Inl e \<Longrightarrow> e = TypeError"
  by (induction xs arbitrary: e) (auto simp: bind_err_Inl)

lemma filterM_err_Inl:
  "(\<forall>x e. p x = Inl e \<longrightarrow> e = TypeError) \<Longrightarrow> filterM_err p xs = Inl e \<Longrightarrow> e = TypeError"
  by (induction xs arbitrary: e) (auto simp: bind_err_Inl)

lemma mapM_err_total:
  "\<forall>x\<in>set xs. \<exists>y. f x = Inr y \<Longrightarrow> \<exists>ys. mapM_err f xs = Inr ys"
  by (induction xs) auto

lemma filterM_err_total:
  "\<forall>x\<in>set xs. \<exists>b. p x = Inr b \<Longrightarrow> \<exists>ys. filterM_err p xs = Inr ys"
  by (induction xs) auto

subsection \<open>What the mapping throws\<close>

lemma toFixed_call_Inl:
  "(case v of JNum n \<Rightarrow> Inr (f n) | _ \<Rightarrow> Inl TypeError) = Inl e \<Longrightarrow> e = TypeError"
  by (cases v) auto

lemma ToNumber_Inl: "ToNumber cv v = Inl e \<Longrightarrow> e = TypeError"
  by (auto simp: ToNumber_def split: js.splits option.splits)

lemma score100_Inl: "score100 cv v = Inl e \<Longrightarrow> e = TypeError"
  by (auto simp: score100_def bind_err_Inl dest: ToNumber_Inl)

lemma metric_fcp_Inl: "metric_fcp cv a = Inl e \<Longrightarrow> e = TypeError"
  by (auto simp: metric_fcp_def bind_err_Inl get_prop_Inl dest: ToNumber_Inl score100_Inl)

lemma metric_lcp_Inl: "metric_lcp cv a = Inl e \<Longrightarrow> e = TypeError"
  by (auto simp: metric_lcp_def bind_err_Inl get_prop_Inl dest: ToNumber_Inl score100_Inl)

lemma metric_tbt_Inl: "metric_tbt cv a = Inl e \<Longrightarrow> e = TypeError"
  by (auto simp: metric_tbt_def bind_err_Inl get_prop_Inl dest: ToNumber_Inl score100_Inl)

lemma metric_cls_Inl: "metric_cls cv a = Inl e \<Longrightarrow> e = TypeError"
  by (auto simp: metric_cls_def bind_err_Inl get_prop_Inl
      dest: toFixed_call_Inl score100_Inl)

lemma metric_seo_Inl: "metric_seo cv c = Inl e \<Longrightarrow> e = TypeError"
  by (auto simp: metric_seo_def bind_err_Inl get_prop_Inl dest: score100_Inl)

lemma metric_accessibility_Inl: "metric_accessibility cv c = Inl e \<Longrightarrow> e = TypeError"
  by (auto simp: metric_accessibility_def bind_err_Inl get_prop_Inl dest: score100_Inl)

lemma metrics_Inl: "metrics cv a c = Inl e \<Longrightarrow> e = TypeError"
  unfolding metrics_def bind_err_Inl
  by (elim disjE exE conjE)
    (auto dest: metric_fcp_Inl metric_lcp_Inl metric_tbt_Inl metric_cls_Inl metric_seo_Inl
      metric_accessibility_Inl)

lemma detailedAudit_Inl: "detailedAudit cv a i = Inl e \<Longrightarrow> e = TypeError"
  by (auto simp: detailedAudit_def bind_err_Inl get_prop_Inl dest: ToNumber_Inl split: if_splits)

lemma detailedAudits_Inl: "detailedAudits cv a ids = Inl e \<Longrightarrow> e = TypeError"
  using mapM_err_Inl [of "detailedAudit cv a" ids e] detailedAudit_Inl [of cv a]
  by (auto simp: detailedAudits_def bind_err_Inl)

lemma overallScore_Inl: "overallScore cv c = Inl e \<Longrightarrow> e = TypeError"
  by (auto simp: overallScore_def bind_err_Inl get_prop_Inl dest: score100_Inl)

lemma not_total_Inl: "not_total x = Inl e \<Longrightarrow> e = TypeError"
  by (auto simp: not_total_def bind_err_Inl get_prop_Inl)

lemma resourceEntry_Inl: "resourceEntry cv p = Inl e \<Longrightarrow> e = TypeError"
  by (cases p) (auto simp: resourceEntry_def bind_err_Inl get_prop_Inl dest: ToNumber_Inl)

lemma resourceBreakdown_Inl:
  assumes "resourceBreakdown cv a = Inl e"
  shows "e = TypeError"
proof (cases "resourceSummary a")
  case (Inl e')
  then have "e' = TypeError"
    by (auto simp: resourceSummary_def bind_err_Inl get_prop_Inl)
  moreover have "e = e'"
    using assms Inl by (simp add: resourceBreakdown_def)
  ultimately show ?thesis by simp
next
  case (Inr rs)
  show ?thesis
  proof (cases rs)
    case (JArr items)
    with Inr assms have "filterM_err not_total items = Inl e
       \<or> (\<exists>kept. mapM_err (resourceEntry cv) (zip kept [0..<length kept]) = Inl e)"
      by (auto simp: resourceBreakdown_def bind_err_Inl)
    then show ?thesis
      using filterM_err_Inl [of not_total items e] not_total_Inl
        mapM_err_Inl [of "resourceEntry cv" _ e] resourceEntry_Inl [of cv]
      by blast
  qed (use Inr assms in \<open>auto simp: resourceBreakdown_def\<close>)
qed

lemma fallbackBreakdown_Inl: "fallbackBreakdown cv a = Inl e \<Longrightarrow> e = TypeError"
  by (auto simp: fallbackBreakdown_def bind_err_Inl get_prop_Inl dest: ToNumber_Inl)

lemma normalize_Inl:
  assumes "normalize cv data = Inl e"
  shows "e = TypeError \<or> (e = Error schema_message \<and> \<not> nullish data \<and> \<not> truthy (own data ''lighthouseResult''))"
proof (cases "nullish data")
  case True
  with assms show ?thesis by (simp add: normalize_def get_prop_def)
next
  case False
  show ?thesis
  proof (cases "truthy (own data ''lighthouseResult'')")
    case f: False
    with False assms show ?thesis by (simp add: normalize_def get_prop_def)
  next
    case True
    with False assms have "
         bind_err (get_prop (own data ''lighthouseResult'') ''audits'') (\<lambda>audits.
         bind_err (get_prop (own data ''lighthouseResult'') ''categories'') (\<lambda>categories.
         bind_err (metrics cv audits categories) (\<lambda>ms.
         bind_err (seoAudits cv audits) (\<lambda>seo.
         bind_err (accessibilityAudits cv audits) (\<lambda>acc.
         bind_err (overallScore cv categories) (\<lambda>overall.
         bind_err (resourceBreakdown cv audits) (\<lambda>rb.
         bind_err (if length rb > 0 then Inr rb else fallbackBreakdown cv audits) (\<lambda>rb'.
           Inr \<lparr>rp_metrics = ms,
                rp_seoAudits = seo,
                rp_accessibilityAudits = acc,
                rp_overallScore = overall,
                rp_resourceBreakdown = rb'\<rparr>)))))))) = Inl e"
      by (simp add: normalize_def get_prop_def)
    then have "e = TypeError"
      unfolding bind_err_Inl
      by (elim disjE exE conjE)
        (auto simp: get_prop_Inl seoAudits_def accessibilityAudits_def
          dest: metrics_Inl detailedAudits_Inl overallScore_Inl resourceBreakdown_Inl
            fallbackBreakdown_Inl split: if_splits)
    then show ?thesis ..
  qed
qed

subsection \<open>What a returned report is made of\<close>

lemma normalize_Inr:
  assumes "normalize cv data = Inr r"
  shows "\<not> nullish data \<and> truthy (own data ''lighthouseResult'')
     \<and> \<not> nullish (audits_of data) \<and> \<not> nullish (categories_of data)
     \<and> metrics cv (audits_of data) (categories_of data) = Inr (rp_metrics r)
     \<and> seoAudits cv (audits_of data) = Inr (rp_seoAudits r)
     \<and> accessibilityAudits cv (audits_of data) = Inr (rp_accessibilityAudits r)
     \<and> overallScore cv (categories_of data) = Inr (rp_overallScore r)
     \<and> (\<exists>rb. resourceBreakdown cv (audits_of data) = Inr rb \<and>
           (if length rb > 0 then rp_resourceBreakdown r = rb
            else fallbackBreakdown cv (audits_of data) = Inr (rp_resourceBreakdown r)))"
proof -
  from assms obtain lighthouse where
    l: "get_prop data ''lighthouseResult'' = Inr lighthouse"
    and rest: "(if \<not> truthy lighthouse then Inl (Error schema_message)
       else
         bind_err (get_prop lighthouse ''audits'') (\<lambda>audits.
         bind_err (get_prop lighthouse ''categories'') (\<lambda>categories.
         bind_err (metrics cv audits categories) (\<lambda>ms.
         bind_err (seoAudits cv audits) (\<lambda>seo.
         bind_err (accessibilityAudits cv audits) (\<lambda>acc.
         bind_err (overallScore cv categories) (\<lambda>overall.
         bind_err (resourceBreakdown cv audits) (\<lambda>rb.
         bind_err (if length rb > 0 then Inr rb else fallbackBreakdown cv audits) (\<lambda>rb'.
           Inr \<lparr>rp_metrics = ms,
                rp_seoAudits = seo,
                rp_accessibilityAudits = acc,
                rp_overallScore = overall,
                rp_resourceBreakdown = rb'\<rparr>))))))))) = Inr r"
    unfolding normalize_def bind_err_Inr by blast
  from l have d: "\<not> nullish data" and lh: "lighthouse = own data ''lighthouseResult''"
    by (simp_all add: get_prop_Inr)
  from rest have tr: "truthy lighthouse"
    by (cases "truthy lighthouse") simp_all
  with rest have rest': "bind_err (get_prop lighthouse ''audits'') (\<lambda>audits.
         bind_err (get_prop lighthouse ''categories'') (\<lambda>categories.
         bind_err (metrics cv audits categories) (\<lambda>ms.
         bind_err (seoAudits cv audits) (\<lambda>seo.
         bind_err (accessibilityAudits cv audits) (\<lambda>acc.
         bind_err (overallScore cv categories) (\<lambda>overall.
         bind_err (resourceBreakdown cv audits) (\<lambda>rb.
         bind_err (if length rb > 0 then Inr rb else fallbackBreakdown cv audits) (\<lambda>rb'.
           Inr \<lparr>rp_metrics = ms,
                rp_seoAudits = seo,
                rp_accessibilityAudits = acc,
                rp_overallScore = overall,
                rp_resourceBreakdown = rb'\<rparr>)))))))) = Inr r"
    by simp
  then obtain audits categories ms seo acc overall rb rb' where
    a: "get_prop lighthouse ''audits'' = Inr audits"
    and c: "get_prop lighthouse ''categories'' = Inr categories"
    and ms: "metrics cv audits categories = Inr ms"
    and seo: "seoAudits cv audits = Inr seo"
    and acc: "accessibilityAudits cv audits = Inr acc"
    and ov: "overallScore cv categories = Inr overall"
    and rb: "resourceBreakdown cv audits = Inr rb"
    and rb': "(if length rb > 0 then Inr rb else fallbackBreakdown cv audits) = Inr rb'"
    and r: "r = \<lparr>rp_metrics = ms, rp_seoAudits = seo, rp_accessibilityAudits = acc,
                rp_overallScore = overall, rp_resourceBreakdown = rb'\<rparr>"
    unfolding bind_err_Inr by (elim exE conjE) auto
  from a c lh have au: "audits = audits_of data" and ca: "categories = categories_of data"
    by (simp_all add: get_prop_Inr audits_of_def categories_of_def)
  have na: "\<not> nullish audits"
    using ms by (auto simp: metrics_def metric_fcp_def bind_err_Inr get_prop_Inr)
  have nc: "\<not> nullish categories"
    using ov by (auto simp: overallScore_def bind_err_Inr get_prop_Inr)
  have ex: "\<exists>rb. resourceBreakdown cv (audits_of data) = Inr rb \<and>
           (if length rb > 0 then rp_resourceBreakdown r = rb
            else fallbackBreakdown cv (audits_of data) = Inr (rp_resourceBreakdown r))"
    using rb rb' r au by (intro exI [of _ rb]) (auto split: if_splits)
  show ?thesis
    using d lh tr au ca ms seo acc ov na nc r by (intro conjI ex) simp_all
qed

lemma floor_half: "\<lfloor>(1::rat) / 2\<rfloor> = 0"
  by (rule floor_unique) simp_all

lemma js_or_nullish: "nullish v \<Longrightarrow> js_or v w = w"
  by (auto simp: nullish_def js_or_def)

lemma score100_nullish: "nullish v \<Longrightarrow> score100 cv v = Inr (Fin 0)"
  by (simp add: score100_def js_or_nullish ToNumber_def floor_half)

lemma seconds_default:
  "nullish v \<Longrightarrow> ToNumber cv v = Inr n \<Longrightarrow>
   num_or (toFixed_parseFloat 2 (js_div n 1000)) (Fin 0) = Fin 0"
  by (auto simp: nullish_def ToNumber_def num_or_def)

lemma metric_fcp_Inr:
  assumes "metric_fcp cv audits = Inr m"
  shows "m_name m = ''First Contentful Paint''"
    and "audit_metric_defaults (own audits ''first-contentful-paint'') fcp_fallback m"
proof -
  let ?a = "own audits ''first-contentful-paint''"
  from assms obtain nv sc where nv: "ToNumber cv (opt_prop ?a ''numericValue'') = Inr nv"
    and sc: "score100 cv (opt_prop ?a ''score'') = Inr sc"
    and m: "m = \<lparr>m_name = ''First Contentful Paint'',
            m_value = num_or (toFixed_parseFloat 2 (js_div nv 1000)) (Fin 0),
            m_unit = ''s'', m_score = sc, m_category = ''speed'',
            m_description = js_or (opt_prop ?a ''description'') (JStr fcp_fallback)\<rparr>"
    by (auto simp: metric_fcp_def bind_err_Inr get_prop_Inr)
  show "m_name m = ''First Contentful Paint''" using m by simp
  show "audit_metric_defaults ?a fcp_fallback m"
    unfolding audit_metric_defaults_def
    using nv sc m by (auto simp: seconds_default score100_nullish js_or_nullish)
qed

lemma metric_lcp_Inr:
  assumes "metric_lcp cv audits = Inr m"
  shows "m_name m = ''Largest Contentful Paint''"
    and "audit_metric_defaults (own audits ''largest-contentful-paint'') lcp_fallback m"
proof -
  let ?a = "own audits ''largest-contentful-paint''"
  from assms obtain nv sc where nv: "ToNumber cv (opt_prop ?a ''numericValue'') = Inr nv"
    and sc: "score100 cv (opt_prop ?a ''score'') = Inr sc"
    and m: "m = \<lparr>m_name = ''Largest Contentful Paint'',
            m_value = num_or (toFixed_parseFloat 2 (js_div nv 1000)) (Fin 0),
            m_unit = ''s'', m_score = sc, m_category = ''speed'',
            m_description = js_or (opt_prop ?a ''description'') (JStr lcp_fallback)\<rparr>"
    by (auto simp: metric_lcp_def bind_err_Inr get_prop_Inr)
  show "m_name m = ''Largest Contentful Paint''" using m by simp
  show "audit_metric_defaults ?a lcp_fallback m"
    unfolding audit_metric_defaults_def
    using nv sc m by (auto simp: seconds_default score100_nullish js_or_nullish)
qed

lemma metric_tbt_Inr:
  assumes "metric_tbt cv audits = Inr m"
  shows "m_name m = ''Total Blocking Time''"
    and "audit_metric_defaults (own audits ''total-blocking-time'') tbt_fallback m"
  using assms
  by (auto simp: metric_tbt_def bind_err_Inr get_prop_Inr audit_metric_defaults_def
      score100_nullish js_or_nullish ToNumber_def floor_half)

lemma metric_cls_Inr:
  assumes "metric_cls cv audits = Inr m"
  shows "m_name m = ''Cumulative Layout Shift''"
    and "audit_metric_defaults (own audits ''cumulative-layout-shift'') cls_fallback m"
  using assms
  by (auto simp: metric_cls_def bind_err_Inr get_prop_Inr audit_metric_defaults_def
      score100_nullish js_or_nullish)

lemma metric_seo_Inr:
  assumes "metric_seo cv categories = Inr m"
  shows "m_name m = ''SEO Score''"
    and "category_metric_defaults (own categories ''seo'') seo_description m"
  using assms
  by (auto simp: metric_seo_def bind_err_Inr get_prop_Inr category_metric_defaults_def
      score100_nullish)

lemma metric_accessibility_Inr:
  assumes "metric_accessibility cv categories = Inr m"
  shows "m_name m = ''Accessibility Score''"
    and "category_metric_defaults (own categories ''accessibility'') accessibility_description m"
  using assms
  by (auto simp: metric_accessibility_def bind_err_Inr get_prop_Inr category_metric_defaults_def
      score100_nullish)

lemma metrics_Inr:
  assumes "metrics cv audits categories = Inr ms"
  obtains m1 m2 m3 m4 m5 m6 where "ms = [m1, m2, m3, m4, m5, m6]"
    and "metric_fcp cv audits = Inr m1" and "metric_lcp cv audits = Inr m2"
    and "metric_tbt cv audits = Inr m3" and "metric_cls cv audits = Inr m4"
    and "metric_seo cv categories = Inr m5" and "metric_accessibility cv categories = Inr m6"
  using assms unfolding metrics_def bind_err_Inr by (elim exE conjE) auto

lemma report_metric_names:
  assumes "normalize cv data = Inr r"
  shows "map m_name (rp_metrics r) =
     [''First Contentful Paint'', ''Largest Contentful Paint'', ''Total Blocking Time'',
      ''Cumulative Layout Shift'', ''SEO Score'', ''Accessibility Score'']"
proof -
  from normalize_Inr [OF assms]
  have "metrics cv (audits_of data) (categories_of data) = Inr (rp_metrics r)" by simp
  then show ?thesis
    by (rule metrics_Inr)
      (simp add: metric_fcp_Inr(1) metric_lcp_Inr(1) metric_tbt_Inr(1) metric_cls_Inr(1)
        metric_seo_Inr(1) metric_accessibility_Inr(1))
qed

lemma detailedAudit_Inr:
  assumes "detailedAudit cv audits i = Inr a"
  shows "a_id a = i" and "(a_score a \<noteq> None) = score_defined audits i"
  using assms
  by (auto simp: detailedAudit_def bind_err_Inr get_prop_Inr score_defined_def
      split: if_splits)

lemma mapM_detailedAudit:
  "mapM_err (detailedAudit cv audits) ids = Inr as \<Longrightarrow>
   map a_id (filter (\<lambda>a. a_score a \<noteq> None) as) = filter (score_defined audits) ids"
proof (induction ids arbitrary: as)
  case Nil
  then show ?case by simp
next
  case (Cons i ids)
  from Cons.prems obtain a as' where a: "detailedAudit cv audits i = Inr a"
    and as': "mapM_err (detailedAudit cv audits) ids = Inr as'" and eq: "as = a # as'"
    by (auto simp: bind_err_Inr)
  from Cons.IH [OF as'] detailedAudit_Inr [OF a] eq show ?case by simp
qed

lemma detailedAudits_Inr:
  assumes "detailedAudits cv audits ids = Inr as"
  shows "(\<forall>a\<in>set as. a_score a \<noteq> None)
     \<and> map a_id as = filter (score_defined audits) ids
     \<and> length as = length (filter (score_defined audits) ids)"
proof -
  from assms obtain as0 where m: "mapM_err (detailedAudit cv audits) ids = Inr as0"
    and eq: "as = filter (\<lambda>a. a_score a \<noteq> None) as0"
    by (auto simp: detailedAudits_def bind_err_Inr)
  have ids: "map a_id as = filter (score_defined audits) ids"
    using mapM_detailedAudit [OF m] eq by simp
  have len: "length as = length (filter (score_defined audits) ids)"
    using arg_cong [OF ids, of length] by simp
  have "\<forall>a\<in>set as. a_score a \<noteq> None"
    using eq by simp
  with ids len show ?thesis by blast
qed

lemma detailedAudit_zero:
  assumes "detailedAudit cv audits i = Inr a"
    and "opt_prop (own audits i) ''score'' \<in> {JNull, JNum (Fin 0)}"
  shows "a_id a = i \<and> a_score a = Some (Fin 0)"
  using assms
  by (auto simp: detailedAudit_def bind_err_Inr get_prop_Inr ToNumber_def floor_half)

lemma detailedAudits_zero:
  assumes "detailedAudits cv audits ids = Inr as" and "i \<in> set ids"
    and "opt_prop (own audits i) ''score'' \<in> {JNull, JNum (Fin 0)}"
  shows "\<exists>a\<in>set as. a_id a = i \<and> a_score a = Some (Fin 0)"
proof -
  from assms(1) obtain as0 where m: "mapM_err (detailedAudit cv audits) ids = Inr as0"
    and eq: "as = filter (\<lambda>a. a_score a \<noteq> None) as0"
    by (auto simp: detailedAudits_def bind_err_Inr)
  from assms(2) obtain k where k: "k < length ids" "ids ! k = i"
    by (auto simp: in_set_conv_nth)
  from mapM_err_Inr [OF m] k have len: "length as0 = length ids"
    and a: "detailedAudit cv audits i = Inr (as0 ! k)"
    by auto
  from detailedAudit_zero [OF a assms(3)]
  have "a_id (as0 ! k) = i \<and> a_score (as0 ! k) = Some (Fin 0)" .
  moreover have "as0 ! k \<in> set as0" using k len by simp
  ultimately show ?thesis using eq by auto
qed

lemma fallbackBreakdown_Inr:
  assumes "fallbackBreakdown cv audits = Inr es"
  shows "\<exists>kb::int. es = [\<lparr>e_name = JStr ''Assets'', e_value = Fin (of_int kb), e_color = ''#3b82f6''\<rparr>]
     \<and> (\<forall>x. opt_prop (own audits ''total-byte-weight'') ''numericValue'' = JNum (Fin x)
           \<longrightarrow> kb = \<lfloor>x / 1024 + 1 / 2\<rfloor>)
     \<and> (nullish (opt_prop (own audits ''total-byte-weight'') ''numericValue'') \<longrightarrow> kb = 0)"
proof -
  let ?nv = "opt_prop (own audits ''total-byte-weight'') ''numericValue''"
  from assms obtain n where n: "ToNumber cv (js_or ?nv (JNum (Fin 0))) = Inr n"
    and es: "es = [\<lparr>e_name = JStr ''Assets'',
             e_value = num_or (Math_round (js_div n 1024)) (Fin 0),
             e_color = ''#3b82f6''\<rparr>]"
    by (auto simp: fallbackBreakdown_def bind_err_Inr get_prop_Inr)
  show ?thesis
  proof (cases n)
    case NaN
    have "\<not> (\<exists>x. ?nv = JNum (Fin x))"
      using n NaN by (auto simp: js_or_def ToNumber_def split: if_splits)
    moreover have "es = [\<lparr>e_name = JStr ''Assets'', e_value = Fin (of_int 0), e_color = ''#3b82f6''\<rparr>]"
      using es NaN by (simp add: num_or_def)
    ultimately show ?thesis by blast
  next
    case (Fin a)
    have x: "?nv = JNum (Fin x) \<Longrightarrow> a = x" for x
      using n Fin by (auto simp: js_or_def ToNumber_def split: if_splits)
    have z: "nullish ?nv \<Longrightarrow> a = 0"
      using n Fin by (auto simp: js_or_nullish ToNumber_def)
    have "es = [\<lparr>e_name = JStr ''Assets'', e_value = Fin (of_int \<lfloor>a / 1024 + 1 / 2\<rfloor>),
             e_color = ''#3b82f6''\<rparr>]"
      using es Fin by (simp add: num_or_def)
    moreover have "\<forall>x. ?nv = JNum (Fin x) \<longrightarrow> \<lfloor>a / 1024 + 1 / 2\<rfloor> = \<lfloor>x / 1024 + 1 / 2\<rfloor>"
      using x by auto
    moreover have "nullish ?nv \<longrightarrow> \<lfloor>a / 1024 + 1 / 2\<rfloor> = 0"
      using z by (auto simp: floor_half)
    ultimately show ?thesis by blast
  qed
qed

lemma not_total_Inr: "not_total x = Inr b \<longleftrightarrow> \<not> nullish x \<and> b = non_total x"
  by (auto simp: not_total_def bind_err_Inr get_prop_Inr non_total_def)

lemma resourceBreakdown_Inr:
  assumes "resourceBreakdown cv audits = Inr rb"
  obtains items es where "js_or (summary_items audits) (JArr []) = JArr items"
    and "\<forall>x\<in>set items. \<not> nullish x"
    and "mapM_err (resourceEntry cv)
           (zip (filter non_total items) [0..<length (filter non_total items)]) = Inr es"
    and "rb = take 6 es"
proof -
  from assms obtain rs where rs: "resourceSummary audits = Inr rs"
    and rest: "(case rs of
         JArr items \<Rightarrow>
           bind_err (filterM_err not_total items) (\<lambda>kept.
           bind_err (mapM_err (resourceEntry cv) (zip kept [0..<length kept])) (\<lambda>es.
             Inr (take 6 es)))
       | _ \<Rightarrow> Inl TypeError) = Inr rb"
    unfolding resourceBreakdown_def bind_err_Inr by blast
  from rs have rs_eq: "rs = js_or (summary_items audits) (JArr [])"
    by (auto simp: resourceSummary_def bind_err_Inr get_prop_Inr summary_items_def)
  from rest obtain items where items: "rs = JArr items"
    by (cases rs) auto
  with rest obtain kept es where kept: "filterM_err not_total items = Inr kept"
    and es: "mapM_err (resourceEntry cv) (zip kept [0..<length kept]) = Inr es"
    and rb: "rb = take 6 es"
    by (auto simp: bind_err_Inr)
  from filterM_err_Inr [OF kept]
  have all: "\<forall>x\<in>set items. \<exists>b. not_total x = Inr b"
    and k: "kept = filter (\<lambda>x. not_total x = Inr True) items"
    by auto
  from all have nn: "\<forall>x\<in>set items. \<not> nullish x"
    by (auto simp: not_total_Inr)
  have "filter (\<lambda>x. not_total x = Inr True) items = filter non_total items"
    by (rule filter_cong) (use nn in \<open>auto simp: not_total_Inr\<close>)
  with k have "kept = filter non_total items" by simp
  with es rb nn items rs_eq show ?thesis
    by (intro that [of items es]) auto
qed

lemma resourceBreakdown_length: "resourceBreakdown cv audits = Inr rb \<Longrightarrow> length rb \<le> 6"
  by (erule resourceBreakdown_Inr) simp

lemma resourceBreakdown_empty:
  assumes "resourceBreakdown cv audits = Inr rb"
    and "\<not> truthy (summary_items audits)
       \<or> (\<exists>xs. summary_items audits = JArr xs \<and> (\<forall>x\<in>set xs. \<not> non_total x))"
  shows "rb = []"
  using assms(1)
proof (rule resourceBreakdown_Inr)
  fix items es
  assume items: "js_or (summary_items audits) (JArr []) = JArr items"
    and es: "mapM_err (resourceEntry cv)
           (zip (filter non_total items) [0..<length (filter non_total items)]) = Inr es"
    and rb: "rb = take 6 es"
  have "filter non_total items = []"
    using assms(2) items by (auto simp: js_or_def filter_empty_conv split: if_splits)
  with es rb show "rb = []" by simp
qed

lemma fallbackBreakdown_single:
  assumes "fallbackBreakdown cv audits = Inr es"
  shows "\<exists>v. es = [\<lparr>e_name = JStr ''Assets'', e_value = v, e_color = ''#3b82f6''\<rparr>]"
  using fallbackBreakdown_Inr [OF assms] by blast

lemma report_breakdown_bounds:
  assumes "normalize cv data = Inr r"
  shows "1 \<le> length (rp_resourceBreakdown r) \<and> length (rp_resourceBreakdown r) \<le> 6
     \<and> (\<not> truthy (summary_items (audits_of data))
         \<or> (\<exists>xs. summary_items (audits_of data) = JArr xs \<and> (\<forall>x\<in>set xs. \<not> non_total x))
        \<longrightarrow> (\<exists>v. rp_resourceBreakdown r =
              [\<lparr>e_name = JStr ''Assets'', e_value = v, e_color = ''#3b82f6''\<rparr>]))"
proof -
  from normalize_Inr [OF assms] obtain rb where
    rb: "resourceBreakdown cv (audits_of data) = Inr rb"
    and sel: "if length rb > 0 then rp_resourceBreakdown r = rb
            else fallbackBreakdown cv (audits_of data) = Inr (rp_resourceBreakdown r)"
    by blast
  have fb: "rb = [] \<Longrightarrow> \<exists>v. rp_resourceBreakdown r =
      [\<lparr>e_name = JStr ''Assets'', e_value = v, e_color = ''#3b82f6''\<rparr>]"
    using sel fallbackBreakdown_single [of cv "audits_of data" "rp_resourceBreakdown r"] by simp
  have len: "1 \<le> length (rp_resourceBreakdown r) \<and> length (rp_resourceBreakdown r) \<le> 6"
  proof (cases "rb = []")
    case True
    from fb [OF this] show ?thesis by auto
  next
    case False
    with sel resourceBreakdown_length [OF rb] show ?thesis
      by (cases rb) auto
  qed
  have "\<exists>v. rp_resourceBreakdown r =
      [\<lparr>e_name = JStr ''Assets'', e_value = v, e_color = ''#3b82f6''\<rparr>]"
    if "\<not> truthy (summary_items (audits_of data))
         \<or> (\<exists>xs. summary_items (audits_of data) = JArr xs \<and> (\<forall>x\<in>set xs. \<not> non_total x))"
    using fb [OF resourceBreakdown_empty [OF rb that]] .
  with len show ?thesis by blast
qed

lemma floor_small: "\<lfloor>(513::rat) / 1024\<rfloor> = 0"
  by (rule floor_unique) simp_all

lemma resourceEntry_null_transferSize:
  assumes "\<not> nullish item" and "own item ''transferSize'' \<in> {JNull, JBool False, JBool True}"
  shows "resourceEntry cv (item, idx) =
     Inr \<lparr>e_name = own item ''label'', e_value = Fin 0, e_color = colors ! (idx mod 6)\<rparr>"
  using assms
  by (auto simp: resourceEntry_def get_prop_def ToNumber_def colors_def floor_half floor_small)

lemma resourceEntry_no_transferSize:
  assumes "\<not> nullish item" and "own item ''transferSize'' = JUndefined"
  shows "resourceEntry cv (item, idx) =
     Inr \<lparr>e_name = own item ''label'', e_value = NaN, e_color = colors ! (idx mod 6)\<rparr>"
  using assms by (simp add: resourceEntry_def get_prop_def ToNumber_def colors_def)

lemma report_missing_transferSize:
  assumes "normalize cv data = Inr r" and "summary_items (audits_of data) = JArr xs"
    and "k < length (filter non_total xs)" and "k < 6"
    and "own (filter non_total xs ! k) ''transferSize'' = JUndefined"
  shows "k < length (rp_resourceBreakdown r)
     \<and> rp_resourceBreakdown r ! k =
          \<lparr>e_name = own (filter non_total xs ! k) ''label'', e_value = NaN,
           e_color = colors ! k\<rparr>"
proof -
  let ?kept = "filter non_total xs"
  from normalize_Inr [OF assms(1)] obtain rb where
    rb: "resourceBreakdown cv (audits_of data) = Inr rb"
    and sel: "if length rb > 0 then rp_resourceBreakdown r = rb
            else fallbackBreakdown cv (audits_of data) = Inr (rp_resourceBreakdown r)"
    by blast
  from rb obtain items es where
    items: "js_or (summary_items (audits_of data)) (JArr []) = JArr items"
    and nn: "\<forall>x\<in>set items. \<not> nullish x"
    and es: "mapM_err (resourceEntry cv)
           (zip (filter non_total items) [0..<length (filter non_total items)]) = Inr es"
    and take: "rb = take 6 es"
    by (rule resourceBreakdown_Inr)
  from items assms(2) have ix: "items = xs" by (simp add: js_or_def)
  from mapM_err_Inr [OF es] ix assms(3)
  have len: "length es = length ?kept"
    and ent: "resourceEntry cv (zip ?kept [0..<length ?kept] ! k) = Inr (es ! k)"
    by auto
  have "?kept ! k \<in> set xs"
    using assms(3) nth_mem [of k ?kept] by auto
  with nn ix have "\<not> nullish (?kept ! k)" by simp
  with assms(3,4,5) ent have "es ! k =
      \<lparr>e_name = own (?kept ! k) ''label'', e_value = NaN, e_color = colors ! (k mod 6)\<rparr>"
    by (simp add: resourceEntry_no_transferSize)
  moreover have "k < length rb" and "rb ! k = es ! k"
    using take len assms(3,4) by auto
  moreover from this sel have "rp_resourceBreakdown r = rb"
    by (cases rb) auto
  ultimately show ?thesis
    using assms(4) by simp
qed

subsection \<open>When the mapping returns a report\<close>

text \<open>
  When the conversion parameter never fails, every part of the mapping returns on the
  inputs a well-formed document gives it.
\<close>

lemma ToNumber_total: "\<forall>v. cv v \<noteq> None \<Longrightarrow> \<exists>n. ToNumber cv v = Inr n"
  by (cases v) (auto simp: ToNumber_def split: option.splits)

lemma score100_total: "\<forall>v. cv v \<noteq> None \<Longrightarrow> \<exists>n. score100 cv v = Inr n"
  using ToNumber_total [of cv "js_or v (JNum (Fin 0))"] by (auto simp: score100_def)

lemma metric_fcp_total:
  assumes "\<forall>v. cv v \<noteq> None" and "\<not> nullish audits"
  shows "\<exists>m. metric_fcp cv audits = Inr m"
  using ToNumber_total [OF assms(1), of "opt_prop (own audits ''first-contentful-paint'') ''numericValue''"]
    score100_total [OF assms(1), of "opt_prop (own audits ''first-contentful-paint'') ''score''"]
    assms(2)
  by (auto simp: metric_fcp_def get_prop_def)

lemma metric_lcp_total:
  assumes "\<forall>v. cv v \<noteq> None" and "\<not> nullish audits"
  shows "\<exists>m. metric_lcp cv audits = Inr m"
  using ToNumber_total [OF assms(1), of "opt_prop (own audits ''largest-contentful-paint'') ''numericValue''"]
    score100_total [OF assms(1), of "opt_prop (own audits ''largest-contentful-paint'') ''score''"]
    assms(2)
  by (auto simp: metric_lcp_def get_prop_def)

lemma metric_tbt_total:
  assumes "\<forall>v. cv v \<noteq> None" and "\<not> nullish audits"
  shows "\<exists>m. metric_tbt cv audits = Inr m"
  using ToNumber_total [OF assms(1), of "js_or (opt_prop (own audits ''total-blocking-time'') ''numericValue'') (JNum (Fin 0))"]
    score100_total [OF assms(1), of "opt_prop (own audits ''total-blocking-time'') ''score''"]
    assms(2)
  by (auto simp: metric_tbt_def get_prop_def)

lemma metric_cls_total:
  assumes "\<forall>v. cv v \<noteq> None" and "\<not> nullish audits"
    and "case js_or (opt_prop (own audits ''cumulative-layout-shift'') ''numericValue'')
                (JNum (Fin 0)) of JNum n \<Rightarrow> True | _ \<Rightarrow> False"
  shows "\<exists>m. metric_cls cv audits = Inr m"
  using score100_total [OF assms(1), of "opt_prop (own audits ''cumulative-layout-shift'') ''score''"]
    assms(2,3)
  by (auto simp: metric_cls_def get_prop_def split: js.splits)

lemma metric_seo_total:
  assumes "\<forall>v. cv v \<noteq> None" and "\<not> nullish categories"
  shows "\<exists>m. metric_seo cv categories = Inr m"
  using score100_total [OF assms(1), of "opt_prop (own categories ''seo'') ''score''"] assms(2)
  by (auto simp: metric_seo_def get_prop_def)

lemma metric_accessibility_total:
  assumes "\<forall>v. cv v \<noteq> None" and "\<not> nullish categories"
  shows "\<exists>m. metric_accessibility cv categories = Inr m"
  using score100_total [OF assms(1), of "opt_prop (own categories ''accessibility'') ''score''"]
    assms(2)
  by (auto simp: metric_accessibility_def get_prop_def)

lemma metrics_total:
  assumes "\<forall>v. cv v \<noteq> None" and "\<not> nullish audits" and "\<not> nullish categories"
    and "case js_or (opt_prop (own audits ''cumulative-layout-shift'') ''numericValue'')
                (JNum (Fin 0)) of JNum n \<Rightarrow> True | _ \<Rightarrow> False"
  shows "\<exists>ms. metrics cv audits categories = Inr ms"
  using metric_fcp_total [OF assms(1,2)] metric_lcp_total [OF assms(1,2)]
    metric_tbt_total [OF assms(1,2)] metric_cls_total [OF assms(1,2,4)]
    metric_seo_total [OF assms(1,3)] metric_accessibility_total [OF assms(1,3)]
  by (auto simp: metrics_def)

lemma detailedAudit_total:
  assumes "\<forall>v. cv v \<noteq> None" and "\<not> nullish audits"
  shows "\<exists>a. detailedAudit cv audits i = Inr a"
  using ToNumber_total [OF assms(1), of "opt_prop (own audits i) ''score''"] assms(2)
  by (auto simp: detailedAudit_def get_prop_def)

lemma detailedAudits_total:
  assumes "\<forall>v. cv v \<noteq> None" and "\<not> nullish audits"
  shows "\<exists>as. detailedAudits cv audits ids = Inr as"
  using mapM_err_total [of ids "detailedAudit cv audits"] detailedAudit_total [OF assms]
  by (auto simp: detailedAudits_def)

lemma overallScore_total:
  assumes "\<forall>v. cv v \<noteq> None" and "\<not> nullish categories"
  shows "\<exists>n. overallScore cv categories = Inr n"
  using score100_total [OF assms(1), of "opt_prop (own categories ''performance'') ''score''"]
    assms(2)
  by (auto simp: overallScore_def get_prop_def)

lemma resourceEntry_total:
  assumes "\<forall>v. cv v \<noteq> None" and "\<not> nullish item"
  shows "\<exists>e. resourceEntry cv (item, idx) = Inr e"
  using ToNumber_total [OF assms(1), of "own item ''transferSize''"] assms(2)
  by (auto simp: resourceEntry_def get_prop_def)

lemma resourceBreakdown_total:
  assumes "\<forall>v. cv v \<noteq> None" and "\<not> nullish audits"
    and "js_or (summary_items audits) (JArr []) = JArr items"
    and "\<forall>item\<in>set items. \<not> nullish item"
  shows "\<exists>rb. resourceBreakdown cv audits = Inr rb"
proof -
  have rs: "resourceSummary audits = Inr (JArr items)"
    using assms(2,3) by (simp add: resourceSummary_def get_prop_def summary_items_def)
  have "\<forall>x\<in>set items. \<exists>b. not_total x = Inr b"
    using assms(4) by (simp add: not_total_Inr)
  from filterM_err_total [OF this] obtain kept where kept: "filterM_err not_total items = Inr kept"
    by blast
  from filterM_err_Inr [OF kept] have sub: "set kept \<subseteq> set items" by auto
  have "\<forall>p\<in>set (zip kept [0..<length kept]). \<exists>e. resourceEntry cv p = Inr e"
  proof
    fix p assume "p \<in> set (zip kept [0..<length kept])"
    then have "fst p \<in> set kept"
      using set_zip_leftD [of "fst p" "snd p" kept "[0..<length kept]"] by simp
    with sub assms(4) have "\<not> nullish (fst p)" by auto
    from resourceEntry_total [OF assms(1) this, of "snd p"]
    show "\<exists>e. resourceEntry cv p = Inr e" by simp
  qed
  from mapM_err_total [OF this] obtain es where
    "mapM_err (resourceEntry cv) (zip kept [0..<length kept]) = Inr es" by blast
  with rs kept show ?thesis by (simp add: resourceBreakdown_def)
qed

lemma fallbackBreakdown_total:
  assumes "\<forall>v. cv v \<noteq> None" and "\<not> nullish audits"
  shows "\<exists>es. fallbackBreakdown cv audits = Inr es"
  using ToNumber_total [OF assms(1), of "js_or (opt_prop (own audits ''total-byte-weight'') ''numericValue'') (JNum (Fin 0))"]
    assms(2)
  by (auto simp: fallbackBreakdown_def get_prop_def)

text \<open>
  The mapping returns a report exactly on the well-formed documents, when no conversion
  fails; and whatever the conversion does, it returns a report on no other document.
\<close>

lemma normalize_returns:
  assumes cv: "\<forall>v. cv v \<noteq> None" and wf: "well_formed data"
  shows "\<exists>r. normalize cv data = Inr r"
proof -
  let ?A = "audits_of data" and ?C = "categories_of data"
  from wf have d: "\<not> nullish data" and t: "truthy (own data ''lighthouseResult'')"
    and a: "\<not> nullish ?A" and c: "\<not> nullish ?C"
    and cls: "case js_or (opt_prop (own ?A ''cumulative-layout-shift'') ''numericValue'')
                (JNum (Fin 0)) of JNum n \<Rightarrow> True | _ \<Rightarrow> False"
    by (simp_all add: well_formed_def)
  from wf obtain items where items: "js_or (summary_items ?A) (JArr []) = JArr items"
    and nn: "\<forall>item\<in>set items. \<not> nullish item"
    by (auto simp: well_formed_def list_all_iff split: js.splits)
  from t have l: "\<not> nullish (own data ''lighthouseResult'')"
    by (auto simp: nullish_def)
  from metrics_total [OF cv a c cls] obtain ms where ms: "metrics cv ?A ?C = Inr ms" ..
  from detailedAudits_total [OF cv a] obtain seo where seo: "seoAudits cv ?A = Inr seo"
    unfolding seoAudits_def ..
  from detailedAudits_total [OF cv a] obtain acc where acc: "accessibilityAudits cv ?A = Inr acc"
    unfolding accessibilityAudits_def ..
  from overallScore_total [OF cv c] obtain ov where ov: "overallScore cv ?C = Inr ov" ..
  from resourceBreakdown_total [OF cv a items nn] obtain rb where
    rb: "resourceBreakdown cv ?A = Inr rb" ..
  from fallbackBreakdown_total [OF cv a] obtain fb where fb: "fallbackBreakdown cv ?A = Inr fb" ..
  have "normalize cv data =
      Inr \<lparr>rp_metrics = ms, rp_seoAudits = seo, rp_accessibilityAudits = acc,
           rp_overallScore = ov, rp_resourceBreakdown = (if length rb > 0 then rb else fb)\<rparr>"
    using d t l ms seo acc ov rb fb
    by (simp add: normalize_def get_prop_def audits_of_def [symmetric]
        categories_of_def [symmetric])
  then show ?thesis ..
qed

lemma normalize_returns_only_if:
  assumes "normalize cv data = Inr r"
  shows "well_formed data"
proof -
  note n = normalize_Inr [OF assms]
  from n have ms: "metrics cv (audits_of data) (categories_of data) = Inr (rp_metrics r)"
    by simp
  then obtain m4 where "metric_cls cv (audits_of data) = Inr m4"
    by (rule metrics_Inr)
  then have cls: "case js_or (opt_prop (own (audits_of data) ''cumulative-layout-shift'') ''numericValue'')
                (JNum (Fin 0)) of JNum n \<Rightarrow> True | _ \<Rightarrow> False"
    by (auto simp: metric_cls_def bind_err_Inr get_prop_Inr split: js.splits)
  from n obtain rb where "resourceBreakdown cv (audits_of data) = Inr rb" by blast
  then obtain items where "js_or (summary_items (audits_of data)) (JArr []) = JArr items"
    and "\<forall>x\<in>set items. \<not> nullish x"
    by (rule resourceBreakdown_Inr)
  with n cls show ?thesis
    by (simp add: well_formed_def list_all_iff)
qed

subsection \<open>The detailed audits\<close>

text \<open>
  What the two lists of a report hold. Neither holds an entry with a \<open>null\<close> score, and
  each holds, in the order of its fixed ids, exactly the ids \<open>i\<close> that pass the test
  \<open>audits[i]?.score !== undefined\<close>; its length is their number. A score of exactly 0
  passes the test and is kept. A score of \<open>null\<close> passes it too, and gives an entry with
  the score 0.
\<close>

lemma detailed_audits_of_report:
  assumes "normalize cv data = Inr r"
  shows "(\<forall>a\<in>set (rp_seoAudits r). a_score a \<noteq> None)
     \<and> map a_id (rp_seoAudits r) = filter (score_defined (audits_of data)) seoAuditIds
     \<and> length (rp_seoAudits r) = length (filter (score_defined (audits_of data)) seoAuditIds)
     \<and> (\<forall>i\<in>set seoAuditIds.
          opt_prop (own (audits_of data) i) ''score'' \<in> {JNull, JNum (Fin 0)} \<longrightarrow>
          (\<exists>a\<in>set (rp_seoAudits r). a_id a = i \<and> a_score a = Some (Fin 0)))
     \<and> (\<forall>a\<in>set (rp_accessibilityAudits r). a_score a \<noteq> None)
     \<and> map a_id (rp_accessibilityAudits r) =
         filter (score_defined (audits_of data)) accessibilityAuditIds
     \<and> length (rp_accessibilityAudits r) =
         length (filter (score_defined (audits_of data)) accessibilityAuditIds)
     \<and> (\<forall>i\<in>set accessibilityAuditIds.
          opt_prop (own (audits_of data) i) ''score'' \<in> {JNull, JNum (Fin 0)} \<longrightarrow>
          (\<exists>a\<in>set (rp_accessibilityAudits r). a_id a = i \<and> a_score a = Some (Fin 0)))"
proof -
  from normalize_Inr [OF assms]
  have seo: "detailedAudits cv (audits_of data) seoAuditIds = Inr (rp_seoAudits r)"
    and acc: "detailedAudits cv (audits_of data) accessibilityAuditIds =
      Inr (rp_accessibilityAudits r)"
    by (simp_all add: seoAudits_def accessibilityAudits_def)
  from detailedAudits_Inr [OF seo] detailedAudits_Inr [OF acc]
    detailedAudits_zero [OF seo] detailedAudits_zero [OF acc]
  show ?thesis
    by (intro conjI ballI impI) blast+
qed

text \<open>Scores 1 and 0 are kept; the audit without a score is dropped from both lists.\<close>

lemma detailed_audits_of_report_example:
  "\<not> isl (normalize unused_coercion scored_document)
   \<and> map a_id (rp_seoAudits (projr (normalize unused_coercion scored_document))) =
       [''viewport'', ''document-title'']
   \<and> map a_id (rp_accessibilityAudits (projr (normalize unused_coercion scored_document))) =
       [''document-title'']
   \<and> (\<exists>a\<in>set (rp_seoAudits (projr (normalize unused_coercion scored_document))).
        a_id a = ''document-title'' \<and> a_score a = Some (Fin 0))"
proof -
  have ok: "\<not> isl (normalize unused_coercion scored_document)" by code_simp
  have seo: "filter (score_defined (audits_of scored_document)) seoAuditIds =
      [''viewport'', ''document-title'']"
    by code_simp
  have acc: "filter (score_defined (audits_of scored_document)) accessibilityAuditIds =
      [''document-title'']"
    by code_simp
  have mem: "''document-title'' \<in> set seoAuditIds" by (simp add: seoAuditIds_def)
  have zero: "opt_prop (own (audits_of scored_document) ''document-title'') ''score''
      \<in> {JNull, JNum (Fin 0)}"
    by code_simp
  from detailed_audits_of_report [OF run_Inr [OF ok]] ok seo acc mem zero
  show ?thesis by auto
qed

text \<open>
  C1. The lists are meant to leave out every audit without a score: the code gives such
  an audit the placeholder score \<open>null\<close> and then filters on \<open>score !== null\<close>. But it
  looks for the missing score with \<open>audit?.score !== undefined\<close>, and the decoded JSON
  holds \<open>null\<close>, not \<open>undefined\<close>, for a score that is not there. So the audit with a
  \<open>null\<close> score is not given the placeholder: \<open>Math.round(null * 100)\<close> makes its score
  0, and it is returned as an audit that failed. The same audit without the \<open>score\<close>
  property is left out, as intended.
\<close>

theorem null_score_audit_kept:
  "own (own (audits_of null_score_document) ''viewport'') ''score'' = JNull
   \<and> map_sum id rp_seoAudits (normalize unused_coercion null_score_document) =
       Inr [\<lparr>a_id = ''viewport'', a_title = JStr ''Has a viewport tag'',
             a_score = Some (Fin 0), a_description = JStr []\<rparr>]
   \<and> own (own (audits_of unscored_document) ''viewport'') ''score'' = JUndefined
   \<and> map_sum id rp_seoAudits (normalize unused_coercion unscored_document) = Inr []"
  by code_simp

subsection \<open>The schema error\<close>

text \<open>
  C2, as the code has it. The check is \<open>!data.lighthouseResult\<close>, a test of truthiness.
  For every document other than \<open>null\<close>, normalization fails with the schema error, and
  returns no report, when the field is absent or holds a falsy value (\<open>null\<close>, \<open>false\<close>,
  \<open>0\<close>, the empty string); when the field holds a truthy value it never fails with the
  schema error. On the document \<open>null\<close> the read of the field itself is a TypeError.
  Every other failure of the mapping is a TypeError too.
\<close>

theorem normalize_schema_error:
  "(nullish data \<longrightarrow> normalize cv data = Inl TypeError)
 \<and> (\<not> nullish data \<and> \<not> truthy (own data ''lighthouseResult'') \<longrightarrow>
       normalize cv data = Inl (Error schema_message))
 \<and> (truthy (own data ''lighthouseResult'') \<longrightarrow>
       normalize cv data \<noteq> Inl (Error schema_message))"
proof (intro conjI impI)
  assume "nullish data"
  then show "normalize cv data = Inl TypeError"
    by (simp add: normalize_def get_prop_def)
next
  assume "\<not> nullish data \<and> \<not> truthy (own data ''lighthouseResult'')"
  then show "normalize cv data = Inl (Error schema_message)"
    by (simp add: normalize_def get_prop_def)
next
  assume t: "truthy (own data ''lighthouseResult'')"
  show "normalize cv data \<noteq> Inl (Error schema_message)"
  proof
    assume "normalize cv data = Inl (Error schema_message)"
    from normalize_Inl [OF this] t show False by simp
  qed
qed

text \<open>The three cases, on \<open>null\<close>, on the empty object and on a document with a result.\<close>

theorem normalize_schema_error_witness:
  "normalize unused_coercion JNull = Inl TypeError
   \<and> normalize unused_coercion (JObj []) = Inl (Error schema_message)
   \<and> normalize unused_coercion bare_document \<noteq> Inl (Error schema_message)"
  using normalize_schema_error [of JNull unused_coercion] normalize_schema_error [of "JObj []" unused_coercion]
    normalize_schema_error [of bare_document unused_coercion]
  by (simp add: nullish_def own_def bare_document_def)

text \<open>
  A document in which the field is present, with the value \<open>false\<close>, fails with the
  schema error.
\<close>

theorem falsy_result_schema_error_counterexample:
  "own falsy_result_document ''lighthouseResult'' = JBool False
   \<and> normalize unused_coercion falsy_result_document = Inl (Error schema_message)"
  by code_simp

subsection \<open>The six metrics\<close>

text \<open>
  C3. Every report the mapping returns holds exactly the six metrics First Contentful
  Paint, Largest Contentful Paint, Total Blocking Time, Cumulative Layout Shift, SEO
  Score and Accessibility Score, in this order, whatever audits and categories the
  document holds. And the mapping does return a report on every well-formed document
  (when no conversion to a number fails), which asks for no audit and no category to be
  present: a missing source field never drops a metric.
\<close>

theorem normalize_six_metrics:
  "(normalize cv data = Inr r \<longrightarrow>
      map m_name (rp_metrics r) =
       [''First Contentful Paint'', ''Largest Contentful Paint'', ''Total Blocking Time'',
        ''Cumulative Layout Shift'', ''SEO Score'', ''Accessibility Score''])
 \<and> ((\<forall>v. cv v \<noteq> None) \<and> well_formed data \<longrightarrow>
      (\<exists>r. normalize cv data = Inr r \<and>
        map m_name (rp_metrics r) =
       [''First Contentful Paint'', ''Largest Contentful Paint'', ''Total Blocking Time'',
        ''Cumulative Layout Shift'', ''SEO Score'', ''Accessibility Score'']))"
  using report_metric_names [of cv data] normalize_returns [of cv data] by blast

text \<open>The document with no audit and no category at all gives the six metrics.\<close>

theorem normalize_six_metrics_witness:
  "\<not> isl (normalize unused_coercion bare_document)
   \<and> map m_name (rp_metrics (projr (normalize unused_coercion bare_document))) =
       [''First Contentful Paint'', ''Largest Contentful Paint'', ''Total Blocking Time'',
        ''Cumulative Layout Shift'', ''SEO Score'', ''Accessibility Score'']
   \<and> well_formed bare_document
   \<and> (\<exists>r. normalize nan_coercion bare_document = Inr r \<and>
        map m_name (rp_metrics r) =
       [''First Contentful Paint'', ''Largest Contentful Paint'', ''Total Blocking Time'',
        ''Cumulative Layout Shift'', ''SEO Score'', ''Accessibility Score''])"
proof -
  have ok: "\<not> isl (normalize unused_coercion bare_document)" by code_simp
  have wf: "well_formed bare_document" by code_simp
  have cv: "\<forall>v. nan_coercion v \<noteq> None" by (simp add: nan_coercion_def)
  from normalize_six_metrics [of unused_coercion bare_document
      "projr (normalize unused_coercion bare_document)"]
    normalize_six_metrics [of nan_coercion bare_document] run_Inr [OF ok] ok wf cv
  show ?thesis by blast
qed

text \<open>
  C4, as the code has it. In every report, each field of a metric falls back on its own
  source field: the value is the number 0 when \<open>numericValue\<close> is missing, the score is
  0 when \<open>score\<close> is missing, and the description is the fixed fallback sentence of the
  metric when \<open>description\<close> is missing. For the two metrics read from a category, value
  and score are 0 when the category score is missing, and the description is always the
  fixed sentence. When the audit itself is missing, all three of its fields are.
\<close>

theorem normalize_metric_defaults:
  assumes "normalize cv data = Inr r"
  shows "\<exists>m1 m2 m3 m4 m5 m6. rp_metrics r = [m1, m2, m3, m4, m5, m6]
     \<and> audit_metric_defaults (own (audits_of data) ''first-contentful-paint'') fcp_fallback m1
     \<and> audit_metric_defaults (own (audits_of data) ''largest-contentful-paint'') lcp_fallback m2
     \<and> audit_metric_defaults (own (audits_of data) ''total-blocking-time'') tbt_fallback m3
     \<and> audit_metric_defaults (own (audits_of data) ''cumulative-layout-shift'') cls_fallback m4
     \<and> category_metric_defaults (own (categories_of data) ''seo'') seo_description m5
     \<and> category_metric_defaults (own (categories_of data) ''accessibility'')
          accessibility_description m6"
proof -
  from normalize_Inr [OF assms]
  have "metrics cv (audits_of data) (categories_of data) = Inr (rp_metrics r)" by simp
  then show ?thesis
    by (rule metrics_Inr)
      (simp add: metric_fcp_Inr(2) metric_lcp_Inr(2) metric_tbt_Inr(2) metric_cls_Inr(2)
        metric_seo_Inr(2) metric_accessibility_Inr(2))
qed

text \<open>With no audit and no category, every value and score is 0 and every description the fallback.\<close>

theorem normalize_metric_defaults_witness:
  "\<not> isl (normalize unused_coercion bare_document)
   \<and> map m_value (rp_metrics (projr (normalize unused_coercion bare_document))) =
       [Fin 0, Fin 0, Fin 0, Fin 0, Fin 0, Fin 0]
   \<and> map m_score (rp_metrics (projr (normalize unused_coercion bare_document))) =
       [Fin 0, Fin 0, Fin 0, Fin 0, Fin 0, Fin 0]
   \<and> map m_description (rp_metrics (projr (normalize unused_coercion bare_document))) =
       [JStr fcp_fallback, JStr lcp_fallback, JStr tbt_fallback, JStr cls_fallback,
        JStr seo_description, JStr accessibility_description]"
proof -
  have ok: "\<not> isl (normalize unused_coercion bare_document)" by code_simp
  have a: "own (audits_of bare_document) k = JUndefined"
    and c: "own (categories_of bare_document) k = JUndefined" for k
    by (simp_all add: audits_of_def categories_of_def bare_document_def own_def)
  from normalize_metric_defaults [OF run_Inr [OF ok]] ok show ?thesis
    by (auto simp: a c audit_metric_defaults_def category_metric_defaults_def opt_prop_def
        nullish_def)
qed

text \<open>
  An audit with neither \<open>numericValue\<close> nor \<open>score\<close>, but with a description: the metric
  keeps the description of the source, not the fallback sentence.
\<close>

theorem source_description_kept_counterexample:
  "\<not> isl (normalize unused_coercion described_document)
   \<and> opt_prop (own (audits_of described_document) ''first-contentful-paint'') ''numericValue''
       = JUndefined
   \<and> opt_prop (own (audits_of described_document) ''first-contentful-paint'') ''score''
       = JUndefined
   \<and> m_description (rp_metrics (projr (normalize unused_coercion described_document)) ! 0)
       = JStr ''Time to first paint.''
   \<and> JStr ''Time to first paint.'' \<noteq> JStr fcp_fallback"
  by code_simp

subsection \<open>The resource breakdown\<close>

text \<open>
  C6, as the code has it. Whenever the filtered, converted and cut resource list is
  empty, the report holds exactly one entry, named \<open>Assets\<close>, whose value is an integer:
  \<open>Math.round(x / 1024)\<close> when the \<open>numericValue\<close> of \<open>total-byte-weight\<close> is the number
  \<open>x\<close>, and 0 when it is missing. Its colour is the literal \<open>#3b82f6\<close>, which is the
  third entry of the palette.
\<close>

theorem normalize_fallback_entry:
  assumes "normalize cv data = Inr r"
    and "resourceBreakdown cv (audits_of data) = Inr []"
  shows "\<exists>kb::int. rp_resourceBreakdown r =
        [\<lparr>e_name = JStr ''Assets'', e_value = Fin (of_int kb), e_color = ''#3b82f6''\<rparr>]
     \<and> (\<forall>x. opt_prop (own (audits_of data) ''total-byte-weight'') ''numericValue'' = JNum (Fin x)
           \<longrightarrow> kb = \<lfloor>x / 1024 + 1 / 2\<rfloor>)
     \<and> (nullish (opt_prop (own (audits_of data) ''total-byte-weight'') ''numericValue'')
           \<longrightarrow> kb = 0)
     \<and> colors ! 2 = ''#3b82f6''"
proof -
  from normalize_Inr [OF assms(1)] assms(2)
  have "fallbackBreakdown cv (audits_of data) = Inr (rp_resourceBreakdown r)"
    by auto
  from fallbackBreakdown_Inr [OF this] show ?thesis
    by (simp add: colors_def)
qed

text \<open>A total byte weight of 3000 and no resource summary: one entry of 3 KB.\<close>

theorem normalize_fallback_entry_witness:
  "\<not> isl (normalize unused_coercion weight_document)
   \<and> rp_resourceBreakdown (projr (normalize unused_coercion weight_document)) =
       [\<lparr>e_name = JStr ''Assets'', e_value = Fin 3, e_color = ''#3b82f6''\<rparr>]"
proof -
  have ok: "\<not> isl (normalize unused_coercion weight_document)" by code_simp
  have none: "resourceBreakdown unused_coercion (audits_of weight_document) = Inr []"
    by code_simp
  have nv: "opt_prop (own (audits_of weight_document) ''total-byte-weight'') ''numericValue''
      = JNum (Fin 3000)"
    by code_simp
  have fl: "\<lfloor>(3000::rat) / 1024 + 1 / 2\<rfloor> = 3"
    by (rule floor_unique) simp_all
  from normalize_fallback_entry [OF run_Inr [OF ok] none] nv fl ok show ?thesis by auto
qed

text \<open>The colour of the synthesized entry is not the first colour of the palette.\<close>

theorem fallback_color_counterexample:
  "map_sum id rp_resourceBreakdown (normalize unused_coercion bare_document) =
     Inr [\<lparr>e_name = JStr ''Assets'', e_value = Fin 0, e_color = ''#3b82f6''\<rparr>]
   \<and> colors ! 0 = ''#f59e0b'' \<and> ''#3b82f6'' \<noteq> colors ! 0"
  by code_simp

text \<open>
  C9. In every report the resource breakdown has at least 1 and at most 6 entries. When
  the source list is missing or falsy, or is an array all of whose rows have the type
  marker \<open>total\<close> (the empty array among them), the breakdown is the single synthesized
  entry \<open>Assets\<close>. And the mapping does return a report on every well-formed document
  (when no conversion to a number fails).
\<close>

theorem normalize_breakdown_bounds:
  "(normalize cv data = Inr r \<longrightarrow>
      1 \<le> length (rp_resourceBreakdown r) \<and> length (rp_resourceBreakdown r) \<le> 6
      \<and> (\<not> truthy (summary_items (audits_of data))
         \<or> (\<exists>xs. summary_items (audits_of data) = JArr xs \<and> (\<forall>x\<in>set xs. \<not> non_total x))
        \<longrightarrow> (\<exists>v. rp_resourceBreakdown r =
              [\<lparr>e_name = JStr ''Assets'', e_value = v, e_color = ''#3b82f6''\<rparr>])))
 \<and> ((\<forall>v. cv v \<noteq> None) \<and> well_formed data \<longrightarrow> (\<exists>r. normalize cv data = Inr r))"
  using report_breakdown_bounds [of cv data r] normalize_returns [of cv data] by blast

text \<open>A resource summary with only a \<open>total\<close> row gives the single entry \<open>Assets\<close>.\<close>

theorem normalize_breakdown_bounds_witness:
  "\<not> isl (normalize unused_coercion all_total_document)
   \<and> length (rp_resourceBreakdown (projr (normalize unused_coercion all_total_document))) = 1
   \<and> map e_name (rp_resourceBreakdown (projr (normalize unused_coercion all_total_document))) =
       [JStr ''Assets'']
   \<and> well_formed all_total_document
   \<and> (\<exists>r. normalize nan_coercion all_total_document = Inr r)"
proof -
  have ok: "\<not> isl (normalize unused_coercion all_total_document)" by code_simp
  have wf: "well_formed all_total_document" by code_simp
  have cv: "\<forall>v. nan_coercion v \<noteq> None" by (simp add: nan_coercion_def)
  have items: "summary_items (audits_of all_total_document) =
      JArr [JObj [(''resourceType'', JStr ''total''), (''label'', JStr ''Total''),
                  (''transferSize'', JNum (Fin 2048))]]"
    by code_simp
  have tot: "\<forall>x\<in>set [JObj [(''resourceType'', JStr ''total''), (''label'', JStr ''Total''),
                  (''transferSize'', JNum (Fin 2048))]]. \<not> non_total x"
    by (simp add: non_total_def own_def)
  from normalize_breakdown_bounds [of unused_coercion all_total_document
      "projr (normalize unused_coercion all_total_document)"] run_Inr [OF ok] items tot
  have "\<exists>v. rp_resourceBreakdown (projr (normalize unused_coercion all_total_document)) =
      [\<lparr>e_name = JStr ''Assets'', e_value = v, e_color = ''#3b82f6''\<rparr>]"
    by blast
  moreover from normalize_breakdown_bounds [of nan_coercion all_total_document] wf cv
  have "\<exists>r. normalize nan_coercion all_total_document = Inr r"
    by blast
  ultimately show ?thesis using ok wf by auto
qed

text \<open>
  C10, as the code has it. An item whose \<open>transferSize\<close> is absent does not make the
  mapping throw, and the value of its entry is \<open>NaN\<close>, since \<open>undefined / 1024\<close> is \<open>NaN\<close>
  and nothing replaces it by 0. First, the conversion of such an item returns an entry
  with the value \<open>NaN\<close>, whatever the conversion parameter. Second, in every report, the
  entry of the \<open>k\<close>-th item that is not a \<open>total\<close> row (\<open>k < 6\<close>) has the value \<open>NaN\<close> when
  that item has no \<open>transferSize\<close>. Third, on every well-formed document (when no
  conversion to a number fails) the mapping returns such a report: being well formed
  asks nothing of \<open>transferSize\<close>. Fourth, a \<open>transferSize\<close> that is there but is \<open>null\<close>,
  \<open>false\<close> or \<open>true\<close> is no number either, and its entry has the value 0, not \<open>NaN\<close>: the
  division converts it to 0 or 1.
\<close>

theorem normalize_missing_transferSize:
  "(\<not> nullish item \<and> own item ''transferSize'' = JUndefined \<longrightarrow>
      resourceEntry cv (item, idx) =
        Inr \<lparr>e_name = own item ''label'', e_value = NaN, e_color = colors ! (idx mod 6)\<rparr>)
 \<and> (normalize cv data = Inr r \<and> summary_items (audits_of data) = JArr xs
      \<and> k < length (filter non_total xs) \<and> k < 6
      \<and> own (filter non_total xs ! k) ''transferSize'' = JUndefined \<longrightarrow>
      k < length (rp_resourceBreakdown r)
      \<and> rp_resourceBreakdown r ! k =
          \<lparr>e_name = own (filter non_total xs ! k) ''label'', e_value = NaN,
             e_color = colors ! k\<rparr>)
 \<and> ((\<forall>v. cv v \<noteq> None) \<and> well_formed data \<and> summary_items (audits_of data) = JArr xs
      \<and> k < length (filter non_total xs) \<and> k < 6
      \<and> own (filter non_total xs ! k) ''transferSize'' = JUndefined \<longrightarrow>
      (\<exists>r. normalize cv data = Inr r \<and> k < length (rp_resourceBreakdown r)
        \<and> rp_resourceBreakdown r ! k =
          \<lparr>e_name = own (filter non_total xs ! k) ''label'', e_value = NaN,
             e_color = colors ! k\<rparr>))
 \<and> (\<not> nullish item \<and> own item ''transferSize'' \<in> {JNull, JBool False, JBool True} \<longrightarrow>
      resourceEntry cv (item, idx) =
        Inr \<lparr>e_name = own item ''label'', e_value = Fin 0, e_color = colors ! (idx mod 6)\<rparr>)"
proof (intro conjI)
  show "\<not> nullish item \<and> own item ''transferSize'' \<in> {JNull, JBool False, JBool True} \<longrightarrow>
      resourceEntry cv (item, idx) =
        Inr \<lparr>e_name = own item ''label'', e_value = Fin 0, e_color = colors ! (idx mod 6)\<rparr>"
    using resourceEntry_null_transferSize [of item cv idx] by blast
  show "\<not> nullish item \<and> own item ''transferSize'' = JUndefined \<longrightarrow>
      resourceEntry cv (item, idx) =
        Inr \<lparr>e_name = own item ''label'', e_value = NaN, e_color = colors ! (idx mod 6)\<rparr>"
    by (simp add: resourceEntry_no_transferSize)
  show "normalize cv data = Inr r \<and> summary_items (audits_of data) = JArr xs
      \<and> k < length (filter non_total xs) \<and> k < 6
      \<and> own (filter non_total xs ! k) ''transferSize'' = JUndefined \<longrightarrow>
      k < length (rp_resourceBreakdown r)
      \<and> rp_resourceBreakdown r ! k =
          \<lparr>e_name = own (filter non_total xs ! k) ''label'', e_value = NaN,
             e_color = colors ! k\<rparr>"
    using report_missing_transferSize [of cv data r xs k] by blast
  show "(\<forall>v. cv v \<noteq> None) \<and> well_formed data \<and> summary_items (audits_of data) = JArr xs
      \<and> k < length (filter non_total xs) \<and> k < 6
      \<and> own (filter non_total xs ! k) ''transferSize'' = JUndefined \<longrightarrow>
      (\<exists>r. normalize cv data = Inr r \<and> k < length (rp_resourceBreakdown r)
        \<and> rp_resourceBreakdown r ! k =
          \<lparr>e_name = own (filter non_total xs ! k) ''label'', e_value = NaN,
             e_color = colors ! k\<rparr>)"
    using normalize_returns [of cv data] report_missing_transferSize [of cv data _ xs k]
    by blast
qed

text \<open>The second item has no \<open>transferSize\<close>; it is the first that is kept.\<close>

theorem normalize_missing_transferSize_witness:
  "\<not> isl (normalize unused_coercion unsized_item_document)
   \<and> rp_resourceBreakdown (projr (normalize unused_coercion unsized_item_document)) ! 0 =
       \<lparr>e_name = JStr ''Script'', e_value = NaN, e_color = ''#f59e0b''\<rparr>
   \<and> resourceEntry unused_coercion
        (JObj [(''resourceType'', JStr ''script''), (''label'', JStr ''Script'')], 0) =
       Inr \<lparr>e_name = JStr ''Script'', e_value = NaN, e_color = ''#f59e0b''\<rparr>
   \<and> well_formed unsized_item_document
   \<and> (\<exists>r. normalize nan_coercion unsized_item_document = Inr r
        \<and> rp_resourceBreakdown r ! 0 =
            \<lparr>e_name = JStr ''Script'', e_value = NaN, e_color = ''#f59e0b''\<rparr>)
   \<and> resourceEntry unused_coercion
        (JObj [(''resourceType'', JStr ''script''), (''label'', JStr ''Script''),
               (''transferSize'', JNull)], 0) =
       Inr \<lparr>e_name = JStr ''Script'', e_value = Fin 0, e_color = ''#f59e0b''\<rparr>"
proof -
  let ?null_item = "JObj [(''resourceType'', JStr ''script''), (''label'', JStr ''Script''),
               (''transferSize'', JNull)]"
  have nit: "\<not> nullish ?null_item"
      "own ?null_item ''transferSize'' \<in> {JNull, JBool False, JBool True}"
      "own ?null_item ''label'' = JStr ''Script''"
    by (simp_all add: nullish_def own_def)
  let ?item = "JObj [(''resourceType'', JStr ''script''), (''label'', JStr ''Script'')]"
  let ?xs = "[JObj [(''resourceType'', JStr ''total''), (''label'', JStr ''Total''),
                    (''transferSize'', JNum (Fin 4096))],
              ?item,
              JObj [(''resourceType'', JStr ''image''), (''label'', JStr ''Image''),
                    (''transferSize'', JNum (Fin 4096))]]"
  have ok: "\<not> isl (normalize unused_coercion unsized_item_document)" by code_simp
  have wf: "well_formed unsized_item_document" by code_simp
  have cv: "\<forall>v. nan_coercion v \<noteq> None" by (simp add: nan_coercion_def)
  have items: "summary_items (audits_of unsized_item_document) = JArr ?xs"
    by code_simp
  have kept: "filter non_total ?xs ! 0 = ?item" "0 < length (filter non_total ?xs)"
    by (simp_all add: non_total_def own_def)
  have it: "\<not> nullish ?item" "own ?item ''transferSize'' = JUndefined"
      "own ?item ''label'' = JStr ''Script''"
    by (simp_all add: nullish_def own_def)
  have col: "colors ! 0 = ''#f59e0b''" by (simp add: colors_def)
  note inst = normalize_missing_transferSize [of ?item _ 0 unsized_item_document _ ?xs 0]
  from inst [of unused_coercion "projr (normalize unused_coercion unsized_item_document)"]
    run_Inr [OF ok] items kept it col
  have one: "rp_resourceBreakdown (projr (normalize unused_coercion unsized_item_document)) ! 0 =
       \<lparr>e_name = JStr ''Script'', e_value = NaN, e_color = ''#f59e0b''\<rparr>"
    and two: "resourceEntry unused_coercion (?item, 0) =
       Inr \<lparr>e_name = JStr ''Script'', e_value = NaN, e_color = ''#f59e0b''\<rparr>"
    by simp_all
  from inst [of nan_coercion "projr (normalize nan_coercion unsized_item_document)"]
    wf cv items kept it col
  have three: "\<exists>r. normalize nan_coercion unsized_item_document = Inr r
        \<and> rp_resourceBreakdown r ! 0 =
            \<lparr>e_name = JStr ''Script'', e_value = NaN, e_color = ''#f59e0b''\<rparr>"
    by auto
  from normalize_missing_transferSize [of ?null_item unused_coercion 0
      unsized_item_document "projr (normalize unused_coercion unsized_item_document)" ?xs 0]
  have "resourceEntry unused_coercion (?null_item, 0) =
       Inr \<lparr>e_name = own ?null_item ''label'', e_value = Fin 0, e_color = colors ! (0 mod 6)\<rparr>"
    using nit(1,2) by blast
  then have four: "resourceEntry unused_coercion (?null_item, 0) =
       Inr \<lparr>e_name = JStr ''Script'', e_value = Fin 0, e_color = ''#f59e0b''\<rparr>"
    using nit(3) col by simp
  from ok one two wf three four show ?thesis by blast
qed

text \<open>
  An item whose \<open>transferSize\<close> is \<open>null\<close> has no numeric \<open>transferSize\<close>, and the value
  of its entry is 0, not \<open>NaN\<close>.
\<close>

theorem null_transferSize_counterexample:
  "summary_items (audits_of null_size_document) =
     JArr [JObj [(''resourceType'', JStr ''script''), (''label'', JStr ''Script''),
                 (''transferSize'', JNull)]]
   \<and> map_sum id rp_resourceBreakdown (normalize unused_coercion null_size_document) =
       Inr [\<lparr>e_name = JStr ''Script'', e_value = Fin 0, e_color = ''#f59e0b''\<rparr>]
   \<and> Fin 0 \<noteq> NaN"
  by code_simp

end
